theory Spec2Isabelle
  imports Main "HOL-Library.Word"
begin

section \<open>The document router of the audiobook pipeline\<close>

text \<open>
  A shallow embedding of \<^verbatim>\<open>src/server/api/routers/document.ts\<close>: the tRPC
  mutations \<^verbatim>\<open>create\<close>, \<^verbatim>\<open>delete\<close> and \<^verbatim>\<open>generateAudioBook\<close>, with the helpers
  \<^verbatim>\<open>getPdfContent\<close>, \<^verbatim>\<open>generateAudio\<close> and \<^verbatim>\<open>saveAudioFile\<close>.

  The file under \<^verbatim>\<open>src/\<close> holds two revisions of the router. Both have the same
  \<^verbatim>\<open>create\<close> and \<^verbatim>\<open>delete\<close>. The revision of lines 281-601 runs each page's
  synthesis in-process (\<open>generateAudioBook\<close> below); the revision of lines 1-280
  hands each page to a background task (\<open>generateAudioBook_trigger\<close> below). The
  oldest revision (\<^verbatim>\<open>unnamed/part_001\<close>) has a \<^verbatim>\<open>delete\<close> without the audio-file
  step (\<open>delete_pages_only\<close> below).

  Conventions of the model:
  \<^item> A JavaScript \<^verbatim>\<open>Error\<close> is the value \<open>Error message\<close>; a function that can
    throw returns \<open>error + 'a\<close>, with \<open>Inl\<close> for the thrown error.
  \<^item> The database, the object store and the log of synthesizer calls are one
    explicit \<open>state\<close>. A mutation returns the state it leaves behind together with
    its result, also when it throws: nothing in the source opens a transaction.
  \<^item> Everything outside the repository (HTTP fetch, the parsing service, the speech
    service, the object store's transport, the job platform, the clock, database
    faults) is a field of the parameter record \<open>services\<close>. A database fault is a
    function of the statement issued.
  \<^item> \<^verbatim>\<open>Promise.all(xs.map(async ...))\<close> is modelled by running the callbacks to
    completion in array order: every callback runs whatever the others do, the
    results keep array order, and a rejection is the first one in array order.
  \<^item> Row ids and page numbers are \<open>int\<close>; the zod input parsing and the session
    middleware of \<^verbatim>\<open>protectedProcedure\<close> have already run, so an input is a
    well-typed record and the caller has a user id.
\<close>

subsection \<open>Values\<close>

type_synonym bytes = "8 word list"

datatype error = Error (message: string)

text \<open>Decimal printing of numbers, as template literals do.\<close>

fun show_nat :: "nat \<Rightarrow> string" where
  "show_nat n =
     (if n < 10 then [char_of (48 + n)]
      else show_nat (n div 10) @ [char_of (48 + n mod 10)])"

declare show_nat.simps [simp del]

definition show_int :: "int \<Rightarrow> string" where
  "show_int i = (if i < 0 then CHR ''-'' # show_nat (nat (- i)) else show_nat (nat i))"

subsection \<open>The Ledger\<close>

text \<open>
  Modelled from the spec: the table declarations of \<^verbatim>\<open>~/server/db/schema\<close> are not
  among the sources. The columns are those the router reads and writes, which are
  the ones the spec lists: \<^verbatim>\<open>documents(id, name, created_by)\<close>,
  \<^verbatim>\<open>pages(id, document_id, page_number, content)\<close>,
  \<^verbatim>\<open>audio_files(id, page_id, file_name, file_path)\<close>. Creation timestamps are left
  out: only \<^verbatim>\<open>getAll\<close>'s ordering reads them. Ids are serial.
\<close>

record documentRow =
  doc_id :: int
  doc_name :: string
  doc_createdById :: string

record pageRow =
  page_id :: int
  page_documentId :: int
  page_pageNumber :: int
  page_content :: string

record audioFileRow =
  audio_id :: int
  audio_pageId :: int
  audio_fileName :: string
  audio_filePath :: string

record state =
  documents :: "documentRow list"
  pages :: "pageRow list"
  audioFiles :: "audioFileRow list"
  documents_seq :: int
  pages_seq :: int
  audioFiles_seq :: int
  objects :: "(string \<times> bytes) list"
  synth_calls :: "(string \<times> string) list"

text \<open>
  \<open>objects\<close> is the bucket as the list of completed uploads (key, body), oldest
  first. \<open>synth_calls\<close> lists the calls made to the speech service (voice, text),
  oldest first: what a call-counting mock of the synthesizer would record.
\<close>

datatype statement =
    InsertDocument string string
  | InsertPage int int string
  | InsertAudioFile int string string
  | FindDocument int
  | FindPages "int list"
  | DeleteAudioFiles "int list"
  | DeletePages int
  | DeleteDocument int

text \<open>
  What \<^verbatim>\<open>await ctx.db.delete(t).where(c)\<close> resolves to: the driver's result object,
  here with its count of affected rows. It is an object (or an array) for every
  driver, so JavaScript's \<^verbatim>\<open>!result\<close> is false whatever the count.
\<close>

datatype query_result = QueryResult (rowCount: nat)

fun truthy :: "query_result \<Rightarrow> bool" where
  "truthy (QueryResult n) = True"

subsection \<open>External services\<close>

record response =
  ok :: bool
  body :: bytes

record payload =
  payload_documentId :: int
  payload_pageId :: int
  payload_voice :: string
  payload_content :: string

record services =
  ELEVENLABS_API_KEY :: string
  AWS_S3_BUCKET :: string
  fetch :: "string \<Rightarrow> error + response"
  loadDataAsContent :: "bytes \<Rightarrow> error + string list"
  elevenlabs_generate :: "string \<Rightarrow> string \<Rightarrow> error + bytes list"
  upload_fault :: "string \<Rightarrow> bytes \<Rightarrow> error option"
  db_fault :: "statement \<Rightarrow> error option"
  inArray_empty_throws :: bool
  Date_now :: "pageRow \<Rightarrow> nat"
  trigger :: "payload \<Rightarrow> error + string"
  runs_retrieve :: "string \<Rightarrow> error + string"

text \<open>
  \<^item> \<open>ELEVENLABS_API_KEY\<close>: the environment variable; unset is the empty string.
  \<^item> \<open>fetch url\<close>: the HTTP response, or the network error thrown.
  \<^item> \<open>loadDataAsContent buffer\<close>: the texts of the parsed documents, one per page,
    or the error the reader throws.
  \<^item> \<open>elevenlabs_generate voice text\<close>: the chunks of the audio stream, or the
    error thrown.
  \<^item> \<open>upload_fault key body\<close>: the error \<^verbatim>\<open>upload.done()\<close> throws, if any.
  \<^item> \<open>db_fault st\<close>: the error the database throws on statement \<open>st\<close>, if any; a
    statement that throws changes nothing.
  \<^item> \<open>inArray_empty_throws\<close>: whether the installed drizzle-orm rejects
    \<^verbatim>\<open>inArray(column, [])\<close> (older releases throw, newer ones match no row).
  \<^item> \<open>Date_now page\<close>: what \<^verbatim>\<open>Date.now()\<close> returns in the callback of \<open>page\<close>.
  \<^item> \<open>trigger\<close>, \<open>runs_retrieve\<close>: the job platform: the run id of the task
    started for a payload, and the run fetched by id, or the error thrown.
\<close>

record ctx =
  session_user_id :: string

subsection \<open>Database access\<close>

definition insert_documents ::
  "services \<Rightarrow> state \<Rightarrow> string \<Rightarrow> string \<Rightarrow> error + (state \<times> documentRow list)" where
  "insert_documents srv s nm uid =
     (case db_fault srv (InsertDocument nm uid) of
        Some e \<Rightarrow> Inl e
      | None \<Rightarrow>
          let row = \<lparr>doc_id = documents_seq s, doc_name = nm, doc_createdById = uid\<rparr>
          in Inr (s\<lparr>documents := documents s @ [row],
                    documents_seq := documents_seq s + 1\<rparr>, [row]))"

definition insert_pages ::
  "services \<Rightarrow> state \<Rightarrow> int \<Rightarrow> int \<Rightarrow> string \<Rightarrow> error + (state \<times> pageRow list)" where
  "insert_pages srv s did num txt =
     (case db_fault srv (InsertPage did num txt) of
        Some e \<Rightarrow> Inl e
      | None \<Rightarrow>
          let row = \<lparr>page_id = pages_seq s, page_documentId = did,
                     page_pageNumber = num, page_content = txt\<rparr>
          in Inr (s\<lparr>pages := pages s @ [row], pages_seq := pages_seq s + 1\<rparr>, [row]))"

definition insert_audioFiles ::
  "services \<Rightarrow> state \<Rightarrow> int \<Rightarrow> string \<Rightarrow> string \<Rightarrow> error + (state \<times> audioFileRow list)" where
  "insert_audioFiles srv s pid fname fpath =
     (case db_fault srv (InsertAudioFile pid fname fpath) of
        Some e \<Rightarrow> Inl e
      | None \<Rightarrow>
          let row = \<lparr>audio_id = audioFiles_seq s, audio_pageId = pid,
                     audio_fileName = fname, audio_filePath = fpath\<rparr>
          in Inr (s\<lparr>audioFiles := audioFiles s @ [row],
                    audioFiles_seq := audioFiles_seq s + 1\<rparr>, [row]))"

text \<open>
  \<^verbatim>\<open>documents.findFirst({where: eq(documents.id, id), with: {pages: ...}})\<close>: the
  first document of that id with the pages that reference it, or \<^verbatim>\<open>undefined\<close>.
\<close>

definition findFirst_document ::
  "services \<Rightarrow> state \<Rightarrow> int \<Rightarrow> error + (documentRow \<times> pageRow list) option" where
  "findFirst_document srv s i =
     (case db_fault srv (FindDocument i) of
        Some e \<Rightarrow> Inl e
      | None \<Rightarrow>
          (case filter (\<lambda>d. doc_id d = i) (documents s) of
             [] \<Rightarrow> Inr None
           | d # _ \<Rightarrow> Inr (Some (d, filter (\<lambda>p. page_documentId p = doc_id d) (pages s)))))"

text \<open>\<^verbatim>\<open>pages.findMany({where: inArray(pages.id, ids)})\<close>.\<close>

definition findMany_pages :: "services \<Rightarrow> state \<Rightarrow> int list \<Rightarrow> error + pageRow list" where
  "findMany_pages srv s ids =
     (if ids = [] \<and> inArray_empty_throws srv
      then Inl (Error ''inArray requires at least one value'')
      else case db_fault srv (FindPages ids) of
             Some e \<Rightarrow> Inl e
           | None \<Rightarrow> Inr (filter (\<lambda>p. page_id p \<in> set ids) (pages s)))"

definition delete_audioFiles ::
  "services \<Rightarrow> state \<Rightarrow> int list \<Rightarrow> error + (state \<times> query_result)" where
  "delete_audioFiles srv s pids =
     (case db_fault srv (DeleteAudioFiles pids) of
        Some e \<Rightarrow> Inl e
      | None \<Rightarrow>
          Inr (s\<lparr>audioFiles := filter (\<lambda>a. audio_pageId a \<notin> set pids) (audioFiles s)\<rparr>,
               QueryResult (length (filter (\<lambda>a. audio_pageId a \<in> set pids) (audioFiles s)))))"

definition delete_pages ::
  "services \<Rightarrow> state \<Rightarrow> int \<Rightarrow> error + (state \<times> query_result)" where
  "delete_pages srv s did =
     (case db_fault srv (DeletePages did) of
        Some e \<Rightarrow> Inl e
      | None \<Rightarrow>
          Inr (s\<lparr>pages := filter (\<lambda>p. page_documentId p \<noteq> did) (pages s)\<rparr>,
               QueryResult (length (filter (\<lambda>p. page_documentId p = did) (pages s)))))"

definition delete_documents ::
  "services \<Rightarrow> state \<Rightarrow> int \<Rightarrow> error + (state \<times> query_result)" where
  "delete_documents srv s i =
     (case db_fault srv (DeleteDocument i) of
        Some e \<Rightarrow> Inl e
      | None \<Rightarrow>
          Inr (s\<lparr>documents := filter (\<lambda>d. doc_id d \<noteq> i) (documents s)\<rparr>,
               QueryResult (length (filter (\<lambda>d. doc_id d = i) (documents s)))))"

subsection \<open>\<^verbatim>\<open>Promise.all\<close> over asynchronous callbacks\<close>

fun promise_all ::
  "('s \<Rightarrow> 'a \<Rightarrow> 's \<times> (error + 'b)) \<Rightarrow> 's \<Rightarrow> 'a list \<Rightarrow> 's \<times> (error + 'b list)" where
  "promise_all f s [] = (s, Inr [])"
| "promise_all f s (x # xs) =
     (case f s x of
        (s1, r) \<Rightarrow>
          (case promise_all f s1 xs of
             (s2, rs) \<Rightarrow>
               (s2, case r of
                      Inl e \<Rightarrow> Inl e
                    | Inr y \<Rightarrow> (case rs of Inl e \<Rightarrow> Inl e | Inr ys \<Rightarrow> Inr (y # ys)))))"

subsection \<open>\<^verbatim>\<open>getPdfContent\<close> and \<^verbatim>\<open>create\<close>\<close>

record pdfPage =
  number :: int
  content :: string

definition getPdfContent :: "services \<Rightarrow> bytes \<Rightarrow> error + pdfPage list" where
  "getPdfContent srv buffer =
     (case loadDataAsContent srv buffer of
        Inl e \<Rightarrow> Inl (Error (''Failed to process PDF document: '' @ message e))
      | Inr docs \<Rightarrow>
          Inr (map (\<lambda>(index, doc). \<lparr>number = int index + 1, content = doc\<rparr>)
                 (enumerate 0 docs)))"

record create_input =
  name :: string
  fileUrl :: string

record create_output =
  out_documentId :: int
  out_pages :: "pageRow list"

text \<open>The callback of \<^verbatim>\<open>pdfPages.map\<close> (lines 95-118).\<close>

definition save_page ::
  "services \<Rightarrow> documentRow \<Rightarrow> state \<Rightarrow> nat \<times> pdfPage \<Rightarrow> state \<times> (error + pageRow)" where
  "save_page srv doc s ip =
     (case ip of
        (index, page) \<Rightarrow>
          (case (case insert_pages srv s (doc_id doc) (number page) (content page) of
                   Inl e \<Rightarrow> (s, Inl e)
                 | Inr (s1, rows) \<Rightarrow>
                     (case rows of
                        [] \<Rightarrow> (s1, Inl (Error ''Failed to save page''))
                      | savedPage # _ \<Rightarrow> (s1, Inr savedPage))) of
             (s2, Inl e) \<Rightarrow>
               (s2, Inl (Error (''Failed to process page '' @ show_nat (index + 1) @ '': ''
                                @ message e)))
           | (s2, Inr savedPage) \<Rightarrow> (s2, Inr savedPage)))"

text \<open>The body of the \<^verbatim>\<open>try\<close> block of \<^verbatim>\<open>create\<close> (lines 67-124).\<close>

definition create_try ::
  "services \<Rightarrow> ctx \<Rightarrow> state \<Rightarrow> create_input \<Rightarrow> state \<times> (error + create_output)" where
  "create_try srv c s inp =
     (case fetch srv (fileUrl inp) of
        Inl e \<Rightarrow> (s, Inl e)
      | Inr resp \<Rightarrow>
          if \<not> ok resp then (s, Inl (Error ''Failed to fetch PDF file''))
          else
            (case getPdfContent srv (body resp) of
               Inl e \<Rightarrow> (s, Inl e)
             | Inr pdfPages \<Rightarrow>
                 (case insert_documents srv s (name inp) (session_user_id c) of
                    Inl e \<Rightarrow> (s, Inl e)
                  | Inr (s1, rows) \<Rightarrow>
                      (case rows of
                         [] \<Rightarrow> (s1, Inl (Error ''Failed to create document''))
                       | doc # _ \<Rightarrow>
                           (case promise_all (save_page srv doc) s1 (enumerate 0 pdfPages) of
                              (s2, Inl e) \<Rightarrow> (s2, Inl e)
                            | (s2, Inr documentPages) \<Rightarrow>
                                (s2, Inr \<lparr>out_documentId = doc_id doc,
                                          out_pages = documentPages\<rparr>))))))"

definition create ::
  "services \<Rightarrow> ctx \<Rightarrow> state \<Rightarrow> create_input \<Rightarrow> state \<times> (error + create_output)" where
  "create srv c s inp =
     (if ELEVENLABS_API_KEY srv = [] then
        (s, Inl (Error ''ElevenLabs API key is not configured''))
      else
        (case create_try srv c s inp of
           (s', Inl e) \<Rightarrow> (s', Inl (Error (''Failed to create document: '' @ message e)))
         | (s', Inr out) \<Rightarrow> (s', Inr out)))"

subsection \<open>\<^verbatim>\<open>delete\<close>\<close>

record delete_input =
  id :: int

text \<open>
  The body of the \<^verbatim>\<open>try\<close> block of \<^verbatim>\<open>delete\<close> (lines 135-199). \<^verbatim>\<open>hasPermission\<close>
  is the constant \<^verbatim>\<open>true\<close>, so its \<^verbatim>\<open>throw\<close> is the dead first branch here.
\<close>

definition delete_try ::
  "services \<Rightarrow> ctx \<Rightarrow> state \<Rightarrow> delete_input \<Rightarrow> state \<times> (error + query_result)" where
  "delete_try srv c s inp =
     (let hasPermission = True in
      if \<not> hasPermission then
        (s, Inl (Error ''You do not have permission to delete this document.''))
      else
        (case findFirst_document srv s (id inp) of
           Inl e \<Rightarrow> (s, Inl e)
         | Inr documentResult \<Rightarrow>
             let associatedPagesId =
                   (case documentResult of
                      None \<Rightarrow> []
                    | Some (d, ps) \<Rightarrow> map page_id ps)
             in
               (case (if length associatedPagesId > 0 then
                        (case delete_audioFiles srv s associatedPagesId of
                           Inl e \<Rightarrow> (s, Inl e)
                         | Inr (s1, deletedAudioFiles) \<Rightarrow>
                             if \<not> truthy deletedAudioFiles then
                               (s1, Inl (Error
                                  ''Failed to delete audio files associated with the document.''))
                             else (s1, Inr ()))
                      else (s, Inr ())) of
                  (s1, Inl e) \<Rightarrow> (s1, Inl e)
                | (s1, Inr _) \<Rightarrow>
                    (case delete_pages srv s1 (id inp) of
                       Inl e \<Rightarrow> (s1, Inl e)
                     | Inr (s2, deletedPages) \<Rightarrow>
                         if \<not> truthy deletedPages then
                           (s2, Inl (Error
                              ''Failed to delete pages associated with the document.''))
                         else
                           (case delete_documents srv s2 (id inp) of
                              Inl e \<Rightarrow> (s2, Inl e)
                            | Inr (s3, deletedDocument) \<Rightarrow>
                                if \<not> truthy deletedDocument then
                                  (s3, Inl (Error ''Failed to delete document.''))
                                else (s3, Inr deletedDocument))))))"

definition delete ::
  "services \<Rightarrow> ctx \<Rightarrow> state \<Rightarrow> delete_input \<Rightarrow> state \<times> (error + query_result)" where
  "delete srv c s inp =
     (case delete_try srv c s inp of
        (s', Inl e) \<Rightarrow> (s', Inl (Error (''Failed to delete document: '' @ message e)))
      | (s', Inr r) \<Rightarrow> (s', Inr r))"

text \<open>The \<^verbatim>\<open>delete\<close> of the oldest revision (\<^verbatim>\<open>unnamed/part_001\<close>, lines 111-154).\<close>

definition delete_pages_only ::
  "services \<Rightarrow> ctx \<Rightarrow> state \<Rightarrow> delete_input \<Rightarrow> state \<times> (error + query_result)" where
  "delete_pages_only srv c s inp =
     (case (let hasPermission = True in
            if \<not> hasPermission then
              (s, Inl (Error ''You do not have permission to delete this document.''))
            else
              (case delete_pages srv s (id inp) of
                 Inl e \<Rightarrow> (s, Inl e)
               | Inr (s2, deletedPages) \<Rightarrow>
                   if \<not> truthy deletedPages then
                     (s2, Inl (Error
                        ''Failed to delete pages associated with the document.''))
                   else
                     (case delete_documents srv s2 (id inp) of
                        Inl e \<Rightarrow> (s2, Inl e)
                      | Inr (s3, deletedDocument) \<Rightarrow>
                          if \<not> truthy deletedDocument then
                            (s3, Inl (Error ''Failed to delete document.''))
                          else (s3, Inr deletedDocument)))) of
        (s', Inl e) \<Rightarrow> (s', Inl (Error (''Failed to delete document: '' @ message e)))
      | (s', Inr r) \<Rightarrow> (s', Inr r))"

subsection \<open>\<^verbatim>\<open>generateAudio\<close>, \<^verbatim>\<open>saveAudioFile\<close> and \<^verbatim>\<open>generateAudioBook\<close>\<close>

text \<open>
  \<^verbatim>\<open>generateAudio\<close> (lines 331-352): one call of the speech service with the text
  as given, the chunks of its stream concatenated.
\<close>

definition generateAudio ::
  "services \<Rightarrow> state \<Rightarrow> string \<Rightarrow> string \<Rightarrow> state \<times> (error + bytes)" where
  "generateAudio srv s text voice =
     (let s1 = s\<lparr>synth_calls := synth_calls s @ [(voice, text)]\<rparr> in
      case elevenlabs_generate srv voice text of
        Inl e \<Rightarrow> (s1, Inl (Error (''Failed to generate audio: '' @ message e)))
      | Inr chunks \<Rightarrow> (s1, Inr (concat chunks)))"

text \<open>\<^verbatim>\<open>saveAudioFile\<close> (lines 354-375).\<close>

definition saveAudioFile ::
  "services \<Rightarrow> state \<Rightarrow> bytes \<Rightarrow> string \<Rightarrow> state \<times> (error + string)" where
  "saveAudioFile srv s audioBuffer fileName =
     (case upload_fault srv (''audio/'' @ fileName) audioBuffer of
        Some e \<Rightarrow> (s, Inl (Error (''Failed to upload audio file: '' @ message e)))
      | None \<Rightarrow>
          (s\<lparr>objects := objects s @ [(''audio/'' @ fileName, audioBuffer)]\<rparr>,
           Inr (''https://fly.storage.tigris.dev/'' @ AWS_S3_BUCKET srv @ ''/audio/''
                @ fileName)))"

record generate_input =
  documentId :: int
  pageIds :: "int list"
  voiceId :: string

text \<open>
  One entry of the result list: \<^verbatim>\<open>{pageId, success: true, ...}\<close> with the inserted
  row (or the run id), or \<^verbatim>\<open>{pageId, success: false, error}\<close>.
\<close>

datatype 'a page_result =
    Succeeded (pageId: int) 'a
  | Failed (pageId: int) string

fun success :: "'a page_result \<Rightarrow> bool" where
  "success (Succeeded p x) = True"
| "success (Failed p m) = False"

text \<open>
  \<^verbatim>\<open>fileName\<close> (line 555): \<^verbatim>\<open>${page.documentId}-${page.pageNumber}-${Date.now()}.mp3\<close>.
\<close>

definition fileName_of :: "services \<Rightarrow> pageRow \<Rightarrow> string" where
  "fileName_of srv page =
     show_int (page_documentId page) @ ''-'' @ show_int (page_pageNumber page) @ ''-''
     @ show_nat (Date_now srv page) @ ''.mp3''"

text \<open>
  The callback of \<^verbatim>\<open>pagesToRegenerate.map\<close> (lines 549-581). The \<^verbatim>\<open>try\<close> block
  covers its whole body and the \<^verbatim>\<open>catch\<close> returns a failure entry, so the callback
  always resolves: \<open>regenerate_try\<close> is the \<^verbatim>\<open>try\<close> block, \<open>regenerate_page\<close> the
  callback. \<^verbatim>\<open>const [audioFile] = ...\<close> is the first returned row, or \<^verbatim>\<open>undefined\<close>.
\<close>

definition regenerate_try ::
  "services \<Rightarrow> generate_input \<Rightarrow> state \<Rightarrow> pageRow
     \<Rightarrow> state \<times> (error + audioFileRow option page_result)" where
  "regenerate_try srv inp s page =
     (case generateAudio srv s (page_content page) (voiceId inp) of
        (s1, Inl e) \<Rightarrow> (s1, Inl e)
      | (s1, Inr audioBuffer) \<Rightarrow>
          let fileName = fileName_of srv page in
            (case saveAudioFile srv s1 audioBuffer fileName of
               (s2, Inl e) \<Rightarrow> (s2, Inl e)
             | (s2, Inr audioPath) \<Rightarrow>
                 (case insert_audioFiles srv s2 (page_id page) fileName audioPath of
                    Inl e \<Rightarrow> (s2, Inl e)
                  | Inr (s3, rows) \<Rightarrow>
                      (s3, Inr (Succeeded (page_id page)
                                  (case rows of
                                     [] \<Rightarrow> None
                                   | audioFile # _ \<Rightarrow> Some audioFile))))))"

definition regenerate_page ::
  "services \<Rightarrow> generate_input \<Rightarrow> state \<Rightarrow> pageRow
     \<Rightarrow> state \<times> audioFileRow option page_result" where
  "regenerate_page srv inp s page =
     (case regenerate_try srv inp s page of
        (s', Inl e) \<Rightarrow> (s', Failed (page_id page) (message e))
      | (s', Inr r) \<Rightarrow> (s', r))"

text \<open>
  \<^verbatim>\<open>generateAudioBook\<close>, in-process revision (lines 529-585). The errors of the key
  check and of \<^verbatim>\<open>findMany\<close> are thrown outside any \<^verbatim>\<open>try\<close>.
\<close>

definition generateAudioBook ::
  "services \<Rightarrow> ctx \<Rightarrow> state \<Rightarrow> generate_input
     \<Rightarrow> state \<times> (error + audioFileRow option page_result list)" where
  "generateAudioBook srv c s inp =
     (if ELEVENLABS_API_KEY srv = [] then
        (s, Inl (Error ''ElevenLabs API key is not configured''))
      else
        (case findMany_pages srv s (pageIds inp) of
           Inl e \<Rightarrow> (s, Inl e)
         | Inr pagesToRegenerate \<Rightarrow>
             promise_all
               (\<lambda>t page. case regenerate_page srv inp t page of (t', r) \<Rightarrow> (t', Inr r))
               s pagesToRegenerate))"

text \<open>
  A result entry with the serial id of its row blanked: what two runs of the same
  job have in common when other inserts happened in between.
\<close>

definition up_to_id :: "audioFileRow option page_result \<Rightarrow> audioFileRow option page_result" where
  "up_to_id r = map_page_result (map_option (\<lambda>a. a\<lparr>audio_id := 0\<rparr>)) r"

text \<open>
  The callback and the mutation of the background-task revision (lines 207-254).
  The task itself (\<^verbatim>\<open>~/trigger/generate\<close>) is not among the sources; the mutation
  only starts it and fetches the run once.
\<close>

definition trigger_page :: "services \<Rightarrow> generate_input \<Rightarrow> pageRow \<Rightarrow> string page_result" where
  "trigger_page srv inp page =
     (case (case trigger srv \<lparr>payload_documentId = documentId inp,
                               payload_pageId = page_id page,
                               payload_voice = voiceId inp,
                               payload_content = page_content page\<rparr> of
              Inl e \<Rightarrow> Inl e
            | Inr runId \<Rightarrow>
                (case runs_retrieve srv runId of
                   Inl e \<Rightarrow> Inl e
                 | Inr run \<Rightarrow> Inr (Succeeded (page_id page) runId))) of
        Inl e \<Rightarrow> Failed (page_id page) (message e)
      | Inr r \<Rightarrow> r)"

definition generateAudioBook_trigger ::
  "services \<Rightarrow> ctx \<Rightarrow> state \<Rightarrow> generate_input
     \<Rightarrow> state \<times> (error + string page_result list)" where
  "generateAudioBook_trigger srv c s inp =
     (if ELEVENLABS_API_KEY srv = [] then
        (s, Inl (Error ''ElevenLabs API key is not configured''))
      else
        (case findMany_pages srv s (pageIds inp) of
           Inl e \<Rightarrow> (s, Inl e)
         | Inr pagesToRegenerate \<Rightarrow>
             promise_all (\<lambda>t page. (t, Inr (trigger_page srv inp page)))
               s pagesToRegenerate))"

subsection \<open>Concrete services and ledgers\<close>

text \<open>Services on which nothing fails, an empty ledger, and variations of both.\<close>

definition srv_ok :: services where
  "srv_ok =
     \<lparr>ELEVENLABS_API_KEY = ''key'',
      AWS_S3_BUCKET = ''bucket'',
      fetch = (\<lambda>url. Inr \<lparr>ok = True, body = [37, 80, 68, 70]\<rparr>),
      loadDataAsContent = (\<lambda>buffer. Inr [''one'', ''two'']),
      elevenlabs_generate = (\<lambda>voice text. Inr [[1, 2], [3]]),
      upload_fault = (\<lambda>key body. None),
      db_fault = (\<lambda>st. None),
      inArray_empty_throws = True,
      Date_now = (\<lambda>page. 1700),
      trigger = (\<lambda>p. Inr ''run_1''),
      runs_retrieve = (\<lambda>runId. Inr ''QUEUED'')\<rparr>"

definition s_empty :: state where
  "s_empty =
     \<lparr>documents = [], pages = [], audioFiles = [],
      documents_seq = 1, pages_seq = 1, audioFiles_seq = 1,
      objects = [], synth_calls = []\<rparr>"

definition alice :: ctx where
  "alice = \<lparr>session_user_id = ''alice''\<rparr>"

definition bob :: ctx where
  "bob = \<lparr>session_user_id = ''bob''\<rparr>"

definition report :: create_input where
  "report = \<lparr>name = ''Report'', fileUrl = ''https://files.example/report.pdf''\<rparr>"

text \<open>The database loses its connection on the insert of page 2 of document 1.\<close>

definition srv_page2_fails :: services where
  "srv_page2_fails =
     srv_ok\<lparr>db_fault :=
       (\<lambda>st. if st = InsertPage 1 2 ''two'' then Some (Error ''connection lost'') else None)\<rparr>"

text \<open>The parsing service answers a non-empty input with no page at all.\<close>

definition srv_zero_pages :: services where
  "srv_zero_pages = srv_ok\<lparr>loadDataAsContent := (\<lambda>buffer. Inr [])\<rparr>"

text \<open>
  A ledger with Alice's document 1 (pages 1 and 2, one audio file for page 1) and
  Bob's document 2 (page 5, whose text is blank).
\<close>

definition s_two_docs :: state where
  "s_two_docs =
     \<lparr>documents =
        [\<lparr>doc_id = 1, doc_name = ''Report'', doc_createdById = ''alice''\<rparr>,
         \<lparr>doc_id = 2, doc_name = ''Notes'', doc_createdById = ''bob''\<rparr>],
      pages =
        [\<lparr>page_id = 1, page_documentId = 1, page_pageNumber = 1, page_content = ''one''\<rparr>,
         \<lparr>page_id = 2, page_documentId = 1, page_pageNumber = 2, page_content = ''two''\<rparr>,
         \<lparr>page_id = 5, page_documentId = 2, page_pageNumber = 1, page_content = ''  ''\<rparr>],
      audioFiles =
        [\<lparr>audio_id = 1, audio_pageId = 1, audio_fileName = ''1-1-1600.mp3'',
          audio_filePath = ''https://fly.storage.tigris.dev/bucket/audio/1-1-1600.mp3''\<rparr>],
      documents_seq = 3, pages_seq = 6, audioFiles_seq = 2,
      objects = [(''audio/1-1-1600.mp3'', [9])],
      synth_calls = []\<rparr>"

text \<open>The speech service answers a blank text with an empty stream.\<close>

definition srv_blank_silent :: services where
  "srv_blank_silent =
     srv_ok\<lparr>elevenlabs_generate :=
       (\<lambda>voice text. if text = ''  '' \<or> text = [] then Inr [] else Inr [[1, 2], [3]])\<rparr>"

text \<open>The speech service rejects the text of page 1 (\<^verbatim>\<open>one\<close>).\<close>

definition srv_page1_synth_fails :: services where
  "srv_page1_synth_fails =
     srv_ok\<lparr>elevenlabs_generate :=
       (\<lambda>voice text. if text = ''one'' then Inl (Error ''quota exceeded'') else Inr [[1, 2], [3]])\<rparr>"

text \<open>Requests for audio.\<close>

definition req_1_99 :: generate_input where
  "req_1_99 = \<lparr>documentId = 1, pageIds = [1, 99], voiceId = ''v''\<rparr>"

definition req_doc1_page5 :: generate_input where
  "req_doc1_page5 = \<lparr>documentId = 1, pageIds = [5], voiceId = ''v''\<rparr>"

definition req_1_2 :: generate_input where
  "req_1_2 = \<lparr>documentId = 1, pageIds = [1, 2], voiceId = ''v''\<rparr>"

definition req_5 :: generate_input where
  "req_5 = \<lparr>documentId = 2, pageIds = [5], voiceId = ''v''\<rparr>"

section \<open>Properties of \<^verbatim>\<open>create\<close>\<close>

lemma save_page_eq:
  "save_page srv doc s (i, pg) =
     (case db_fault srv (InsertPage (doc_id doc) (number pg) (content pg)) of
        Some e \<Rightarrow>
          (s, Inl (Error (''Failed to process page '' @ show_nat (i + 1) @ '': '' @ message e)))
      | None \<Rightarrow>
          (s\<lparr>pages := pages s @ [\<lparr>page_id = pages_seq s, page_documentId = doc_id doc,
                                    page_pageNumber = number pg, page_content = content pg\<rparr>],
             pages_seq := pages_seq s + 1\<rparr>,
           Inr \<lparr>page_id = pages_seq s, page_documentId = doc_id doc,
                page_pageNumber = number pg, page_content = content pg\<rparr>))"
  by (simp add: save_page_def insert_pages_def Let_def split: option.splits)

lemma save_pages_effect:
  "promise_all (save_page srv doc) s xs = (s', R) \<Longrightarrow>
     documents s' = documents s \<and> audioFiles s' = audioFiles s \<and>
     documents_seq s' = documents_seq s \<and>
     (\<exists>new. pages s' = pages s @ new \<and>
        map (\<lambda>p. (page_documentId p, page_pageNumber p, page_content p)) new =
          map (\<lambda>(i, pg). (doc_id doc, number pg, content pg))
            (filter (\<lambda>(i, pg). db_fault srv (InsertPage (doc_id doc) (number pg) (content pg)) = None) xs) \<and>
        (\<forall>saved. R = Inr saved \<longrightarrow> saved = new \<and> length new = length xs) \<and>
        (\<forall>e. R = Inl e \<longrightarrow>
           (\<exists>x\<in>set xs. db_fault srv (InsertPage (doc_id doc) (number (snd x)) (content (snd x))) \<noteq> None)))"
proof (induction xs arbitrary: s s' R)
  case Nil
  then show ?case by auto
next
  case (Cons x xs)
  obtain i pg where x: "x = (i, pg)" by (cases x)
  obtain s1 r where h: "save_page srv doc s (i, pg) = (s1, r)" by (cases "save_page srv doc s (i, pg)")
  obtain s2 rs where t: "promise_all (save_page srv doc) s1 xs = (s2, rs)"
    by (cases "promise_all (save_page srv doc) s1 xs")
  from Cons.prems x h t have s': "s' = s2"
    and R: "R = (case r of Inl e \<Rightarrow> Inl e | Inr y \<Rightarrow> (case rs of Inl e \<Rightarrow> Inl e | Inr ys \<Rightarrow> Inr (y # ys)))"
    by auto
  note IH = Cons.IH [OF t]
  show ?case
  proof (cases "db_fault srv (InsertPage (doc_id doc) (number pg) (content pg))")
    case None
    with h have s1: "s1 = s\<lparr>pages := pages s @ [\<lparr>page_id = pages_seq s, page_documentId = doc_id doc,
                                    page_pageNumber = number pg, page_content = content pg\<rparr>],
             pages_seq := pages_seq s + 1\<rparr>"
      and r: "r = Inr \<lparr>page_id = pages_seq s, page_documentId = doc_id doc,
                page_pageNumber = number pg, page_content = content pg\<rparr>"
      by (simp_all add: save_page_eq)
    from IH s1 r R s' None x show ?thesis
      by (auto split: sum.splits)
  next
    case (Some e)
    with h have "s1 = s \<and> (\<exists>m. r = Inl m)" by (auto simp: save_page_eq)
    with IH R s' Some x show ?thesis by (auto split: sum.splits)
  qed
qed

lemma getPdfContent_eq:
  "getPdfContent srv buffer =
     (case loadDataAsContent srv buffer of
        Inl e \<Rightarrow> Inl (Error (''Failed to process PDF document: '' @ message e))
      | Inr docs \<Rightarrow> Inr (map (\<lambda>(index, doc). \<lparr>number = int index + 1, content = doc\<rparr>) (enumerate 0 docs)))"
  by (simp add: getPdfContent_def)

lemma numbers_enumerate:
  "map (\<lambda>(index, doc). int index + 1) (enumerate n docs) = map int [Suc n..<Suc (n + length docs)]"
proof (induction docs arbitrary: n)
  case Nil
  show ?case by simp
next
  case (Cons d ds)
  have "[Suc n..<Suc (n + length (d # ds))] = Suc n # [Suc (Suc n)..<Suc (Suc n + length ds)]"
    by (subst upt_rec) simp
  with Cons.IH [of "Suc n"] show ?case by simp
qed

lemma map_filter_enumerate:
  "map (\<lambda>(i, x). f x) (filter (\<lambda>(i, x). P x) (enumerate n xs)) = map f (filter P xs)"
  by (induction xs arbitrary: n) auto

lemma snd_set_enumerate: "snd ` set (enumerate n xs) = set xs"
  by (metis map_snd_enumerate set_map)

lemma create_eq:
  assumes "ELEVENLABS_API_KEY srv \<noteq> []"
    and "fetch srv (fileUrl inp) = Inr resp" and "ok resp"
    and "getPdfContent srv (body resp) = Inr pdfPages"
  shows "create srv c s inp =
     (case db_fault srv (InsertDocument (name inp) (session_user_id c)) of
        Some e \<Rightarrow> (s, Inl (Error (''Failed to create document: '' @ message e)))
      | None \<Rightarrow>
          (case promise_all
                  (save_page srv \<lparr>doc_id = documents_seq s, doc_name = name inp,
                                  doc_createdById = session_user_id c\<rparr>)
                  (s\<lparr>documents := documents s @ [\<lparr>doc_id = documents_seq s, doc_name = name inp,
                                  doc_createdById = session_user_id c\<rparr>],
                     documents_seq := documents_seq s + 1\<rparr>)
                  (enumerate 0 pdfPages) of
             (s2, Inl e) \<Rightarrow> (s2, Inl (Error (''Failed to create document: '' @ message e)))
           | (s2, Inr documentPages) \<Rightarrow>
               (s2, Inr \<lparr>out_documentId = documents_seq s, out_pages = documentPages\<rparr>)))"
  using assms
  by (simp add: create_def create_try_def insert_documents_def Let_def
        split: option.splits prod.splits sum.splits)

lemma create_Inr_fetched:
  assumes "create srv c s inp = (s', Inr out)"
  shows "\<exists>resp docs. ELEVENLABS_API_KEY srv \<noteq> [] \<and> fetch srv (fileUrl inp) = Inr resp \<and> ok resp \<and>
           loadDataAsContent srv (body resp) = Inr docs"
  using assms
  by (auto simp: create_def create_try_def getPdfContent_def
        split: if_splits option.splits prod.splits sum.splits)

text \<open>
  C1 (amended). \<^verbatim>\<open>create\<close> is not atomic. When it fails after extraction has
  succeeded, nothing is rolled back: either the insert of the Document row itself
  failed, and the ledger is as it was; or a Page insert failed, and then the new
  Document row stays in the ledger together with exactly those Page rows whose own
  insert succeeded.
\<close>
theorem create_failure_keeps_rows:
  assumes key: "ELEVENLABS_API_KEY srv \<noteq> []"
    and fetched: "fetch srv (fileUrl inp) = Inr resp" "ok resp"
    and extracted: "getPdfContent srv (body resp) = Inr pdfPages"
    and failed: "create srv c s inp = (s', Inl e)"
  shows "(db_fault srv (InsertDocument (name inp) (session_user_id c)) \<noteq> None \<and> s' = s) \<or>
         (db_fault srv (InsertDocument (name inp) (session_user_id c)) = None \<and>
          documents s' = documents s @ [\<lparr>doc_id = documents_seq s, doc_name = name inp,
                                          doc_createdById = session_user_id c\<rparr>] \<and>
          (\<exists>new. pages s' = pages s @ new \<and>
             map (\<lambda>p. (page_documentId p, page_pageNumber p, page_content p)) new =
               map (\<lambda>pg. (documents_seq s, number pg, content pg))
                 (filter (\<lambda>pg. db_fault srv (InsertPage (documents_seq s) (number pg) (content pg)) = None)
                    pdfPages)) \<and>
          (\<exists>pg\<in>set pdfPages.
             db_fault srv (InsertPage (documents_seq s) (number pg) (content pg)) \<noteq> None))"
proof (cases "db_fault srv (InsertDocument (name inp) (session_user_id c))")
  case (Some e0)
  with failed create_eq [OF key fetched extracted, of c s] show ?thesis by simp
next
  case None
  define doc where "doc = \<lparr>doc_id = documents_seq s, doc_name = name inp,
                             doc_createdById = session_user_id c\<rparr>"
  define s1 where "s1 = s\<lparr>documents := documents s @ [doc], documents_seq := documents_seq s + 1\<rparr>"
  obtain s2 R where run: "promise_all (save_page srv doc) s1 (enumerate 0 pdfPages) = (s2, R)"
    by (cases "promise_all (save_page srv doc) s1 (enumerate 0 pdfPages)")
  from failed create_eq [OF key fetched extracted, of c s] None run
  have s': "s' = s2" and R: "\<exists>e1. R = Inl e1"
    by (auto simp: doc_def s1_def split: sum.splits)
  from save_pages_effect [OF run] obtain new where
    docs: "documents s2 = documents s1" and
    pgs: "pages s2 = pages s1 @ new" and
    flds: "map (\<lambda>p. (page_documentId p, page_pageNumber p, page_content p)) new =
          map (\<lambda>(i, pg). (doc_id doc, number pg, content pg))
            (filter (\<lambda>(i, pg). db_fault srv (InsertPage (doc_id doc) (number pg) (content pg)) = None)
               (enumerate 0 pdfPages))" and
    flt: "\<forall>e. R = Inl e \<longrightarrow>
           (\<exists>x\<in>set (enumerate 0 pdfPages).
              db_fault srv (InsertPage (doc_id doc) (number (snd x)) (content (snd x))) \<noteq> None)"
    by blast
  have did: "doc_id doc = documents_seq s" by (simp add: doc_def)
  from flds have flds': "map (\<lambda>p. (page_documentId p, page_pageNumber p, page_content p)) new =
      map (\<lambda>pg. (documents_seq s, number pg, content pg))
        (filter (\<lambda>pg. db_fault srv (InsertPage (documents_seq s) (number pg) (content pg)) = None) pdfPages)"
    by (simp only: did map_filter_enumerate)
  from flt R obtain x where "x \<in> set (enumerate 0 pdfPages)"
    and "db_fault srv (InsertPage (documents_seq s) (number (snd x)) (content (snd x))) \<noteq> None"
    by (auto simp: did)
  then have "\<exists>pg\<in>set pdfPages.
             db_fault srv (InsertPage (documents_seq s) (number pg) (content pg)) \<noteq> None"
    using snd_set_enumerate [of 0 pdfPages] by (metis imageI)
  with None s' docs pgs flds' show ?thesis
    by (simp add: s1_def doc_def)
qed

text \<open>
  C2 (amended). When the extractor reports zero pages for a non-empty input,
  \<^verbatim>\<open>getPdfContent\<close> returns the empty page list without an error, and \<^verbatim>\<open>create\<close>
  (the key configured, the Document insert succeeding) persists a Document row
  with no Page row and returns \<^verbatim>\<open>{documentId, pages: []}\<close>.
\<close>
theorem create_accepts_zero_pages:
  assumes key: "ELEVENLABS_API_KEY srv \<noteq> []"
    and fetched: "fetch srv (fileUrl inp) = Inr resp" "ok resp"
    and nonempty: "body resp \<noteq> []"
    and zero: "loadDataAsContent srv (body resp) = Inr []"
    and inserted: "db_fault srv (InsertDocument (name inp) (session_user_id c)) = None"
  shows "getPdfContent srv (body resp) = Inr [] \<and>
         create srv c s inp =
           (s\<lparr>documents := documents s @ [\<lparr>doc_id = documents_seq s, doc_name = name inp,
                                             doc_createdById = session_user_id c\<rparr>],
              documents_seq := documents_seq s + 1\<rparr>,
            Inr \<lparr>out_documentId = documents_seq s, out_pages = []\<rparr>)"
proof -
  from zero have ex: "getPdfContent srv (body resp) = Inr []"
    by (simp add: getPdfContent_def)
  from create_eq [OF key fetched ex, of c s] inserted ex show ?thesis by simp
qed

text \<open>
  C9. For a document that is fetched and extracted into \<open>docs\<close>, every successful
  \<^verbatim>\<open>create\<close> returns pages numbered \<open>1..N\<close> in order, with \<open>N = length docs\<close>, the texts
  in extraction order, the numbers pairwise distinct, all of the new document, and
  these are the rows appended to the ledger; and \<^verbatim>\<open>create\<close> does succeed when the
  database throws on no statement.
\<close>
theorem create_pages_numbered:
  assumes key: "ELEVENLABS_API_KEY srv \<noteq> []"
    and fetched: "fetch srv (fileUrl inp) = Inr resp" "ok resp"
    and extracted: "loadDataAsContent srv (body resp) = Inr docs"
  shows "(\<forall>s' out. create srv c s inp = (s', Inr out) \<longrightarrow>
            map page_pageNumber (out_pages out) = map int [1..<Suc (length docs)] \<and>
            map page_content (out_pages out) = docs \<and>
            distinct (map page_pageNumber (out_pages out)) \<and>
            (\<forall>p\<in>set (out_pages out). page_documentId p = out_documentId out) \<and>
            pages s' = pages s @ out_pages out) \<and>
         ((\<forall>st. db_fault srv st = None) \<longrightarrow> (\<exists>s' out. create srv c s inp = (s', Inr out)))"
proof -
  define pdfPages where
    "pdfPages = map (\<lambda>(index, doc). \<lparr>number = int index + 1, content = doc\<rparr>) (enumerate 0 docs)"
  define doc where "doc = \<lparr>doc_id = documents_seq s, doc_name = name inp,
                             doc_createdById = session_user_id c\<rparr>"
  define s1 where "s1 = s\<lparr>documents := documents s @ [doc], documents_seq := documents_seq s + 1\<rparr>"
  have ex: "getPdfContent srv (body resp) = Inr pdfPages"
    using extracted by (simp add: getPdfContent_def pdfPages_def)
  note eq = create_eq [OF key fetched ex, of c s, folded doc_def, folded s1_def]
  have nums: "map number pdfPages = map int [1..<Suc (length docs)]"
    using numbers_enumerate [of 0 docs] by (simp add: pdfPages_def comp_def case_prod_unfold)
  have conts: "map content pdfPages = docs"
    by (simp add: pdfPages_def comp_def case_prod_unfold)
  obtain s2 R where run: "promise_all (save_page srv doc) s1 (enumerate 0 pdfPages) = (s2, R)"
    by (cases "promise_all (save_page srv doc) s1 (enumerate 0 pdfPages)")
  from save_pages_effect [OF run] obtain new where
    pgs: "pages s2 = pages s1 @ new" and
    flds: "map (\<lambda>p. (page_documentId p, page_pageNumber p, page_content p)) new =
          map (\<lambda>(i, pg). (doc_id doc, number pg, content pg))
            (filter (\<lambda>(i, pg). db_fault srv (InsertPage (doc_id doc) (number pg) (content pg)) = None)
               (enumerate 0 pdfPages))" and
    ok: "\<forall>saved. R = Inr saved \<longrightarrow> saved = new \<and> length new = length (enumerate 0 pdfPages)" and
    flt: "\<forall>e. R = Inl e \<longrightarrow>
           (\<exists>x\<in>set (enumerate 0 pdfPages).
              db_fault srv (InsertPage (doc_id doc) (number (snd x)) (content (snd x))) \<noteq> None)"
    by blast
  have part1: "map page_pageNumber (out_pages out) = map int [1..<Suc (length docs)] \<and>
            map page_content (out_pages out) = docs \<and>
            distinct (map page_pageNumber (out_pages out)) \<and>
            (\<forall>p\<in>set (out_pages out). page_documentId p = out_documentId out) \<and>
            pages s' = pages s @ out_pages out"
    if success: "create srv c s inp = (s', Inr out)" for s' out
  proof -
    from success eq run have nofault: "db_fault srv (InsertDocument (name inp) (session_user_id c)) = None"
      and s': "s' = s2" and R: "R = Inr (out_pages out)" and oid: "out_documentId out = documents_seq s"
      by (auto split: option.splits sum.splits)
    from ok R have on: "out_pages out = new" and len: "length new = length pdfPages" by simp_all
    have "length (filter (\<lambda>(i, pg). db_fault srv (InsertPage (doc_id doc) (number pg) (content pg)) = None)
               (enumerate 0 pdfPages)) = length (enumerate 0 pdfPages)"
      using arg_cong [OF flds, of length] len by simp
    then have "filter (\<lambda>(i, pg). db_fault srv (InsertPage (doc_id doc) (number pg) (content pg)) = None)
               (enumerate 0 pdfPages) = enumerate 0 pdfPages"
      by (metis length_filter_less filter_True nat_less_le)
    with flds have all: "map (\<lambda>p. (page_documentId p, page_pageNumber p, page_content p)) new =
          map (\<lambda>pg. (doc_id doc, number pg, content pg)) pdfPages"
      using map_filter_enumerate [of "\<lambda>pg. (doc_id doc, number pg, content pg)" "\<lambda>pg. True" 0 pdfPages]
      by simp
    have n: "map page_pageNumber new = map number pdfPages"
      using arg_cong [OF all, of "map (\<lambda>t. fst (snd t))"] by (simp add: comp_def)
    have ct: "map page_content new = map content pdfPages"
      using arg_cong [OF all, of "map (\<lambda>t. snd (snd t))"] by (simp add: comp_def)
    have d: "map page_documentId new = map (\<lambda>pg. doc_id doc) pdfPages"
      using arg_cong [OF all, of "map fst"] by (simp add: comp_def)
    have dd: "\<forall>p\<in>set new. page_documentId p = documents_seq s"
    proof
      fix p assume "p \<in> set new"
      then have "page_documentId p \<in> set (map page_documentId new)" by simp
      with d show "page_documentId p = documents_seq s" by (auto simp: doc_def)
    qed
    have dist: "distinct (map int [1..<Suc (length docs)])"
      by (simp add: distinct_map inj_on_def)
    from n ct nums conts dd dist on oid s' pgs show ?thesis
      by (simp add: s1_def)
  qed
  have part2: "\<exists>s' out. create srv c s inp = (s', Inr out)" if "\<forall>st. db_fault srv st = None"
  proof -
    from flt that have "\<exists>saved. R = Inr saved" by (cases R) auto
    with eq run that show ?thesis by auto
  qed
  from part1 part2 show ?thesis by blast
qed

lemma create_page2_fails_eval:
  "create srv_page2_fails alice s_empty report =
     (\<lparr>documents = [\<lparr>doc_id = 1, doc_name = ''Report'', doc_createdById = ''alice''\<rparr>],
       pages = [\<lparr>page_id = 1, page_documentId = 1, page_pageNumber = 1, page_content = ''one''\<rparr>],
       audioFiles = [], documents_seq = 2, pages_seq = 2, audioFiles_seq = 1,
       objects = [], synth_calls = []\<rparr>,
      Inl (Error ''Failed to create document: Failed to process page 2: connection lost''))"
  by code_simp

lemma getPdfContent_page2_fails_eval:
  "getPdfContent srv_page2_fails [37, 80, 68, 70] =
     Inr [\<lparr>number = 1, content = ''one''\<rparr>, \<lparr>number = 2, content = ''two''\<rparr>]"
  by (simp add: getPdfContent_def srv_page2_fails_def srv_ok_def)

text \<open>
  The insert of page 2 fails after extraction has succeeded: \<^verbatim>\<open>create\<close> throws, and
  document 1 and page 1 are in the ledger it leaves behind.
\<close>

theorem create_atomic_counterexample:
  "fetch srv_page2_fails (fileUrl report) = Inr \<lparr>ok = True, body = [37, 80, 68, 70]\<rparr> \<and>
   getPdfContent srv_page2_fails [37, 80, 68, 70] =
     Inr [\<lparr>number = 1, content = ''one''\<rparr>, \<lparr>number = 2, content = ''two''\<rparr>] \<and>
   snd (create srv_page2_fails alice s_empty report) =
     Inl (Error ''Failed to create document: Failed to process page 2: connection lost'') \<and>
   documents (fst (create srv_page2_fails alice s_empty report)) =
     [\<lparr>doc_id = 1, doc_name = ''Report'', doc_createdById = ''alice''\<rparr>] \<and>
   pages (fst (create srv_page2_fails alice s_empty report)) =
     [\<lparr>page_id = 1, page_documentId = 1, page_pageNumber = 1, page_content = ''one''\<rparr>]"
  by (simp add: create_page2_fails_eval getPdfContent_page2_fails_eval)
     (simp add: srv_page2_fails_def srv_ok_def report_def)

text \<open>
  The same run, through the theorem: the Document row and the one Page row whose
  insert succeeded remain.
\<close>

theorem create_failure_keeps_rows_witness:
  "snd (create srv_page2_fails alice s_empty report) =
     Inl (Error ''Failed to create document: Failed to process page 2: connection lost'') \<and>
   documents (fst (create srv_page2_fails alice s_empty report)) =
     documents s_empty @ [\<lparr>doc_id = 1, doc_name = ''Report'', doc_createdById = ''alice''\<rparr>] \<and>
   (\<exists>new. pages (fst (create srv_page2_fails alice s_empty report)) = pages s_empty @ new \<and>
      map (\<lambda>p. (page_documentId p, page_pageNumber p, page_content p)) new = [(1, 1, ''one'')])"
proof -
  have k: "ELEVENLABS_API_KEY srv_page2_fails \<noteq> []"
    by (simp add: srv_page2_fails_def srv_ok_def)
  have f: "fetch srv_page2_fails (fileUrl report) = Inr \<lparr>ok = True, body = [37, 80, 68, 70]\<rparr>"
    by (simp add: srv_page2_fails_def srv_ok_def)
  have o: "ok \<lparr>ok = True, body = [37, 80, 68, 70]\<rparr>" by simp
  have x: "getPdfContent srv_page2_fails (body \<lparr>ok = True, body = [37, 80, 68, 70]\<rparr>) =
     Inr [\<lparr>number = 1, content = ''one''\<rparr>, \<lparr>number = 2, content = ''two''\<rparr>]"
    by (simp add: getPdfContent_page2_fails_eval)
  have c: "create srv_page2_fails alice s_empty report =
     (fst (create srv_page2_fails alice s_empty report),
      Inl (Error ''Failed to create document: Failed to process page 2: connection lost''))"
    by (simp add: create_page2_fails_eval)
  have d: "db_fault srv_page2_fails (InsertDocument (name report) (session_user_id alice)) = None"
    by (simp add: srv_page2_fails_def srv_ok_def)
  from create_failure_keeps_rows [OF k f o x c] d
  show ?thesis
    by (simp add: create_page2_fails_eval)
       (simp add: srv_page2_fails_def srv_ok_def s_empty_def report_def alice_def)
qed

lemma create_zero_pages_eval:
  "create srv_zero_pages alice s_empty report =
     (\<lparr>documents = [\<lparr>doc_id = 1, doc_name = ''Report'', doc_createdById = ''alice''\<rparr>],
       pages = [], audioFiles = [], documents_seq = 2, pages_seq = 1, audioFiles_seq = 1,
       objects = [], synth_calls = []\<rparr>,
      Inr \<lparr>out_documentId = 1, out_pages = []\<rparr>)"
  by code_simp

text \<open>
  A non-empty input of four bytes for which the extractor reports no page:
  \<^verbatim>\<open>getPdfContent\<close> succeeds with no page, \<^verbatim>\<open>create\<close> succeeds, and document 1 is
  persisted without any page.
\<close>

theorem create_zero_pages_counterexample:
  "fetch srv_zero_pages (fileUrl report) = Inr \<lparr>ok = True, body = [37, 80, 68, 70]\<rparr> \<and>
   loadDataAsContent srv_zero_pages [37, 80, 68, 70] = Inr [] \<and>
   getPdfContent srv_zero_pages [37, 80, 68, 70] = Inr [] \<and>
   snd (create srv_zero_pages alice s_empty report) = Inr \<lparr>out_documentId = 1, out_pages = []\<rparr> \<and>
   documents (fst (create srv_zero_pages alice s_empty report)) =
     [\<lparr>doc_id = 1, doc_name = ''Report'', doc_createdById = ''alice''\<rparr>] \<and>
   pages (fst (create srv_zero_pages alice s_empty report)) = []"
  by (simp add: create_zero_pages_eval)
     (simp add: getPdfContent_def srv_zero_pages_def srv_ok_def report_def)

text \<open>
  The same run, through the theorem.
\<close>

theorem create_accepts_zero_pages_witness:
  "body \<lparr>ok = True, body = [37, 80, 68, 70]\<rparr> \<noteq> [] \<and>
   loadDataAsContent srv_zero_pages [37, 80, 68, 70] = Inr [] \<and>
   getPdfContent srv_zero_pages [37, 80, 68, 70] = Inr [] \<and>
   create srv_zero_pages alice s_empty report =
     (s_empty\<lparr>documents := [\<lparr>doc_id = 1, doc_name = ''Report'', doc_createdById = ''alice''\<rparr>],
              documents_seq := 2\<rparr>,
      Inr \<lparr>out_documentId = 1, out_pages = []\<rparr>)"
proof -
  have k: "ELEVENLABS_API_KEY srv_zero_pages \<noteq> []"
    by (simp add: srv_zero_pages_def srv_ok_def)
  have f: "fetch srv_zero_pages (fileUrl report) = Inr \<lparr>ok = True, body = [37, 80, 68, 70]\<rparr>"
    by (simp add: srv_zero_pages_def srv_ok_def)
  have o: "ok \<lparr>ok = True, body = [37, 80, 68, 70]\<rparr>" by simp
  have n: "body \<lparr>ok = True, body = [37, 80, 68, 70]\<rparr> \<noteq> []" by simp
  have z: "loadDataAsContent srv_zero_pages (body \<lparr>ok = True, body = [37, 80, 68, 70]\<rparr>) = Inr []"
    by (simp add: srv_zero_pages_def srv_ok_def)
  have d: "db_fault srv_zero_pages (InsertDocument (name report) (session_user_id alice)) = None"
    by (simp add: srv_zero_pages_def srv_ok_def)
  from create_accepts_zero_pages [OF k f o n z d, of s_empty] n z
  show ?thesis
    by (simp add: s_empty_def report_def alice_def)
qed

text \<open>
  A two-page document on services where nothing fails: \<^verbatim>\<open>create\<close> returns pages 1
  and 2, and they are the pages of the ledger.
\<close>

theorem create_pages_numbered_witness:
  "loadDataAsContent srv_ok [37, 80, 68, 70] = Inr [''one'', ''two''] \<and>
   (\<exists>s' out. create srv_ok alice s_empty report = (s', Inr out) \<and>
      map page_pageNumber (out_pages out) = [1, 2] \<and>
      map page_content (out_pages out) = [''one'', ''two''] \<and>
      pages s' = out_pages out)"
proof -
  have k: "ELEVENLABS_API_KEY srv_ok \<noteq> []" by (simp add: srv_ok_def)
  have f: "fetch srv_ok (fileUrl report) = Inr \<lparr>ok = True, body = [37, 80, 68, 70]\<rparr>"
    by (simp add: srv_ok_def)
  have o: "ok \<lparr>ok = True, body = [37, 80, 68, 70]\<rparr>" by simp
  have x: "loadDataAsContent srv_ok (body \<lparr>ok = True, body = [37, 80, 68, 70]\<rparr>) = Inr [''one'', ''two'']"
    by (simp add: srv_ok_def)
  have nf: "\<forall>st. db_fault srv_ok st = None" by (simp add: srv_ok_def)
  note th = create_pages_numbered [OF k f o x, of alice s_empty]
  from th nf obtain s' out where c: "create srv_ok alice s_empty report = (s', Inr out)" by blast
  with th have "map page_pageNumber (out_pages out) = map int [1..<Suc (length [''one'', ''two''])] \<and>
            map page_content (out_pages out) = [''one'', ''two''] \<and>
            pages s' = pages s_empty @ out_pages out" by blast
  moreover have "map int [1..<Suc (length [''one'', ''two''])] = [1, 2]" by (simp add: upt_rec)
  ultimately show ?thesis using c x by (auto simp: s_empty_def)
qed

section \<open>Properties of \<^verbatim>\<open>generateAudioBook\<close>\<close>

lemma regenerate_page_eq:
  "regenerate_page srv inp s p =
     (case elevenlabs_generate srv (voiceId inp) (page_content p) of
        Inl e \<Rightarrow>
          (s\<lparr>synth_calls := synth_calls s @ [(voiceId inp, page_content p)]\<rparr>,
           Failed (page_id p) (''Failed to generate audio: '' @ message e))
      | Inr chunks \<Rightarrow>
          (case upload_fault srv (''audio/'' @ fileName_of srv p) (concat chunks) of
             Some e \<Rightarrow>
               (s\<lparr>synth_calls := synth_calls s @ [(voiceId inp, page_content p)]\<rparr>,
                Failed (page_id p) (''Failed to upload audio file: '' @ message e))
           | None \<Rightarrow>
               (case db_fault srv
                       (InsertAudioFile (page_id p) (fileName_of srv p)
                          (''https://fly.storage.tigris.dev/'' @ AWS_S3_BUCKET srv @ ''/audio/''
                           @ fileName_of srv p)) of
                  Some e \<Rightarrow>
                    (s\<lparr>synth_calls := synth_calls s @ [(voiceId inp, page_content p)],
                       objects := objects s @ [(''audio/'' @ fileName_of srv p, concat chunks)]\<rparr>,
                     Failed (page_id p) (message e))
                | None \<Rightarrow>
                    (s\<lparr>synth_calls := synth_calls s @ [(voiceId inp, page_content p)],
                       objects := objects s @ [(''audio/'' @ fileName_of srv p, concat chunks)],
                       audioFiles := audioFiles s @
                         [\<lparr>audio_id = audioFiles_seq s, audio_pageId = page_id p,
                           audio_fileName = fileName_of srv p,
                           audio_filePath = ''https://fly.storage.tigris.dev/'' @ AWS_S3_BUCKET srv
                             @ ''/audio/'' @ fileName_of srv p\<rparr>],
                       audioFiles_seq := audioFiles_seq s + 1\<rparr>,
                     Succeeded (page_id p)
                       (Some \<lparr>audio_id = audioFiles_seq s, audio_pageId = page_id p,
                           audio_fileName = fileName_of srv p,
                           audio_filePath = ''https://fly.storage.tigris.dev/'' @ AWS_S3_BUCKET srv
                             @ ''/audio/'' @ fileName_of srv p\<rparr>)))))"
  by (simp add: regenerate_page_def regenerate_try_def generateAudio_def saveAudioFile_def
        insert_audioFiles_def Let_def split: sum.splits option.splits)

lemma regenerate_page_pageId: "pageId (snd (regenerate_page srv inp s p)) = page_id p"
  by (simp add: regenerate_page_eq split: sum.splits option.splits)

lemma regenerate_page_up_to_id:
  "up_to_id (snd (regenerate_page srv inp s p)) = up_to_id (snd (regenerate_page srv inp t p))"
  by (simp add: regenerate_page_eq up_to_id_def split: sum.splits option.splits)

lemma regenerate_page_rows:
  "regenerate_page srv inp s p = (s', r) \<Longrightarrow>
     audioFiles s' = audioFiles s @ [a. Succeeded pid (Some a) \<leftarrow> [r]]"
  by (auto simp: regenerate_page_eq split: sum.splits option.splits)

lemma regenerate_page_objects:
  "regenerate_page srv inp s p = (s', r) \<Longrightarrow> \<exists>new. objects s' = objects s @ new"
  by (auto simp: regenerate_page_eq split: sum.splits option.splits)

lemma regenerate_page_success:
  "regenerate_page srv inp s p = (s', r) \<Longrightarrow> success r \<Longrightarrow>
     \<exists>a chunks. r = Succeeded (page_id p) (Some a) \<and> audio_pageId a = page_id p \<and>
        audio_fileName a = fileName_of srv p \<and>
        elevenlabs_generate srv (voiceId inp) (page_content p) = Inr chunks \<and>
        upload_fault srv (''audio/'' @ fileName_of srv p) (concat chunks) = None \<and>
        (''audio/'' @ fileName_of srv p, concat chunks) \<in> set (objects s')"
  by (auto simp: regenerate_page_eq split: sum.splits option.splits)

lemma batch_effect:
  assumes "promise_all (\<lambda>t page. case regenerate_page srv inp t page of (t', r) \<Rightarrow> (t', Inr r)) s ps
             = (s', R)"
  shows "\<exists>rs. R = Inr rs \<and>
           list_all2 (\<lambda>p r. pageId r = page_id p \<and>
                       (\<forall>t. up_to_id r = up_to_id (snd (regenerate_page srv inp t p))) \<and>
                       (success r \<longrightarrow>
                          (\<exists>a chunks. r = Succeeded (page_id p) (Some a) \<and>
                             audio_pageId a = page_id p \<and>
                             audio_fileName a = fileName_of srv p \<and>
                             elevenlabs_generate srv (voiceId inp) (page_content p) = Inr chunks \<and>
                             upload_fault srv (''audio/'' @ fileName_of srv p) (concat chunks) = None \<and>
                             (''audio/'' @ fileName_of srv p, concat chunks) \<in> set (objects s'))))
             ps rs \<and>
           audioFiles s' = audioFiles s @ [a. Succeeded pid (Some a) \<leftarrow> rs] \<and>
           (\<exists>new. objects s' = objects s @ new)"
  using assms
proof (induction ps arbitrary: s s' R)
  case Nil
  then show ?case by auto
next
  case (Cons p ps)
  obtain s1 r where h: "regenerate_page srv inp s p = (s1, r)"
    by (cases "regenerate_page srv inp s p")
  obtain s2 R2 where t: "promise_all (\<lambda>t page. case regenerate_page srv inp t page of (t', r) \<Rightarrow> (t', Inr r)) s1 ps
             = (s2, R2)"
    by (cases "promise_all (\<lambda>t page. case regenerate_page srv inp t page of (t', r) \<Rightarrow> (t', Inr r)) s1 ps")
  from Cons.IH [OF t] obtain rs new where
    R2: "R2 = Inr rs" and
    all: "list_all2 (\<lambda>p r. pageId r = page_id p \<and>
                       (\<forall>t. up_to_id r = up_to_id (snd (regenerate_page srv inp t p))) \<and>
                       (success r \<longrightarrow>
                          (\<exists>a chunks. r = Succeeded (page_id p) (Some a) \<and>
                             audio_pageId a = page_id p \<and>
                             audio_fileName a = fileName_of srv p \<and>
                             elevenlabs_generate srv (voiceId inp) (page_content p) = Inr chunks \<and>
                             upload_fault srv (''audio/'' @ fileName_of srv p) (concat chunks) = None \<and>
                             (''audio/'' @ fileName_of srv p, concat chunks) \<in> set (objects s2))))
             ps rs" and
    rows: "audioFiles s2 = audioFiles s1 @ [a. Succeeded pid (Some a) \<leftarrow> rs]" and
    objs: "objects s2 = objects s1 @ new"
    by blast
  from Cons.prems h t R2 have s': "s' = s2" and R: "R = Inr (r # rs)" by auto
  have hd1: "pageId r = page_id p"
    using regenerate_page_pageId [of srv inp s p] h by simp
  have hd2: "\<forall>t. up_to_id r = up_to_id (snd (regenerate_page srv inp t p))"
    using regenerate_page_up_to_id [of srv inp s p] h by simp
  have hd3: "success r \<longrightarrow>
                          (\<exists>a chunks. r = Succeeded (page_id p) (Some a) \<and>
                             audio_pageId a = page_id p \<and>
                             audio_fileName a = fileName_of srv p \<and>
                             elevenlabs_generate srv (voiceId inp) (page_content p) = Inr chunks \<and>
                             upload_fault srv (''audio/'' @ fileName_of srv p) (concat chunks) = None \<and>
                             (''audio/'' @ fileName_of srv p, concat chunks) \<in> set (objects s2))"
    using regenerate_page_success [OF h] objs by auto
  from regenerate_page_objects [OF h] obtain new1 where o1: "objects s1 = objects s @ new1" by blast
  have rows': "audioFiles s2 = audioFiles s @ [a. Succeeded pid (Some a) \<leftarrow> r # rs]"
    using regenerate_page_rows [OF h] rows by simp
  from hd1 hd2 hd3 all rows' o1 objs s' R show ?case by simp
qed

lemma findMany_pages_Inr:
  "findMany_pages srv s ids = Inr found \<Longrightarrow> found = filter (\<lambda>p. page_id p \<in> set ids) (pages s)"
  by (auto simp: findMany_pages_def split: if_splits option.splits)

lemma list_all2_pageId:
  "list_all2 (\<lambda>p r. pageId r = page_id p \<and> Q p r) ps rs \<Longrightarrow> map pageId rs = map page_id ps"
  by (induction ps rs rule: list_all2_induct) auto

lemma trigger_page_pageId: "pageId (trigger_page srv inp p) = page_id p"
  by (simp add: trigger_page_def split: sum.splits)

lemma trigger_batch:
  "promise_all (\<lambda>t page. (t, Inr (trigger_page srv inp page))) s ps =
     (s, Inr (map (trigger_page srv inp) ps))"
  by (induction ps) auto

lemma generateAudioBook_trigger_eq:
  assumes "ELEVENLABS_API_KEY srv \<noteq> []" and "findMany_pages srv s (pageIds inp) = Inr found"
  shows "generateAudioBook_trigger srv c s inp = (s, Inr (map (trigger_page srv inp) found))"
  using assms by (simp add: generateAudioBook_trigger_def trigger_batch)

lemma generateAudioBook_eq:
  assumes "ELEVENLABS_API_KEY srv \<noteq> []" and "findMany_pages srv s (pageIds inp) = Inr found"
  shows "generateAudioBook srv c s inp =
           promise_all (\<lambda>t page. case regenerate_page srv inp t page of (t', r) \<Rightarrow> (t', Inr r)) s found"
  using assms by (simp add: generateAudioBook_def)

lemma generateAudioBook_Inr_found:
  assumes "generateAudioBook srv c s inp = (s', Inr rs)"
  shows "\<exists>found. ELEVENLABS_API_KEY srv \<noteq> [] \<and> findMany_pages srv s (pageIds inp) = Inr found"
  using assms by (auto simp: generateAudioBook_def split: if_splits sum.splits)

lemma generateAudioBook_found_entries:
  assumes key: "ELEVENLABS_API_KEY srv \<noteq> []"
    and found: "findMany_pages srv s (pageIds inp) = Inr found"
  shows "found = filter (\<lambda>p. page_id p \<in> set (pageIds inp)) (pages s) \<and>
         (\<exists>s' rs. generateAudioBook srv c s inp = (s', Inr rs) \<and>
            map pageId rs = map page_id found) \<and>
         (\<exists>rs. generateAudioBook_trigger srv c s inp = (s, Inr rs) \<and>
            map pageId rs = map page_id found)"
proof -
  obtain s' R where run: "generateAudioBook srv c s inp = (s', R)"
    by (cases "generateAudioBook srv c s inp")
  with generateAudioBook_eq [OF key found, of c]
  have "promise_all (\<lambda>t page. case regenerate_page srv inp t page of (t', r) \<Rightarrow> (t', Inr r)) s found
          = (s', R)" by simp
  from batch_effect [OF this] obtain rs where R: "R = Inr rs"
    and all: "list_all2 (\<lambda>p r. pageId r = page_id p \<and>
                       (\<forall>t. up_to_id r = up_to_id (snd (regenerate_page srv inp t p))) \<and>
                       (success r \<longrightarrow>
                          (\<exists>a chunks. r = Succeeded (page_id p) (Some a) \<and>
                             audio_pageId a = page_id p \<and>
                             audio_fileName a = fileName_of srv p \<and>
                             elevenlabs_generate srv (voiceId inp) (page_content p) = Inr chunks \<and>
                             upload_fault srv (''audio/'' @ fileName_of srv p) (concat chunks) = None \<and>
                             (''audio/'' @ fileName_of srv p, concat chunks) \<in> set (objects s'))))
             found rs"
    by blast
  from list_all2_pageId [OF all] R have "R = Inr rs" and "map pageId rs = map page_id found"
    by simp_all
  with run have a: "\<exists>s' rs. generateAudioBook srv c s inp = (s', Inr rs) \<and>
            map pageId rs = map page_id found" by blast
  have b: "\<exists>rs. generateAudioBook_trigger srv c s inp = (s, Inr rs) \<and>
            map pageId rs = map page_id found"
    using generateAudioBook_trigger_eq [OF key found, of c]
    by (simp add: comp_def trigger_page_pageId)
  from findMany_pages_Inr [OF found] a b show ?thesis by blast
qed

text \<open>
  C3 (amended). The result list of \<^verbatim>\<open>generateAudioBook\<close> has exactly one entry per
  Page row of the ledger whose id is among the requested ids, in ledger order,
  whether its generation succeeds or fails. A requested id with no Page row gets
  no entry. This holds for the in-process and for the background-task revision.
\<close>
theorem generateAudioBook_entry_per_found_page:
  assumes key: "ELEVENLABS_API_KEY srv \<noteq> []"
    and found: "findMany_pages srv s (pageIds inp) = Inr found"
  shows "found = filter (\<lambda>p. page_id p \<in> set (pageIds inp)) (pages s) \<and>
         (\<exists>s' rs. generateAudioBook srv c s inp = (s', Inr rs) \<and>
            map pageId rs = map page_id found) \<and>
         (\<exists>rs. generateAudioBook_trigger srv c s inp = (s, Inr rs) \<and>
            map pageId rs = map page_id found)"
  by (rule generateAudioBook_found_entries [OF key found])

text \<open>
  C4 (amended). \<^verbatim>\<open>generateAudioBook\<close> does not check that a requested page belongs
  to \<^verbatim>\<open>documentId\<close>: pages are selected by id alone. A requested page of another
  document gets its entry in both revisions, and in the in-process revision the
  final state and the results do not depend on \<^verbatim>\<open>documentId\<close> at all.
\<close>
theorem generateAudioBook_ignores_documentId:
  assumes key: "ELEVENLABS_API_KEY srv \<noteq> []"
    and found: "findMany_pages srv s (pageIds inp) = Inr found"
    and p: "p \<in> set (pages s)" "page_id p \<in> set (pageIds inp)"
    and other: "page_documentId p \<noteq> documentId inp"
  shows "generateAudioBook srv c s (inp\<lparr>documentId := d\<rparr>) = generateAudioBook srv c s inp \<and>
         (\<exists>s' rs. generateAudioBook srv c s inp = (s', Inr rs) \<and> page_id p \<in> set (map pageId rs)) \<and>
         (\<exists>rs. generateAudioBook_trigger srv c s inp = (s, Inr rs) \<and>
            page_id p \<in> set (map pageId rs))"
proof -
  have "regenerate_page srv (inp\<lparr>documentId := d\<rparr>) = regenerate_page srv inp"
    by (intro ext) (simp add: regenerate_page_def regenerate_try_def)
  then have a: "generateAudioBook srv c s (inp\<lparr>documentId := d\<rparr>) = generateAudioBook srv c s inp"
    by (simp add: generateAudioBook_def split: sum.splits)
  from findMany_pages_Inr [OF found] p have mem: "page_id p \<in> set (map page_id found)" by simp
  from generateAudioBook_found_entries [OF key found, of c]
  obtain s' rs rs' where r1: "generateAudioBook srv c s inp = (s', Inr rs)"
    and m1: "map pageId rs = map page_id found"
    and r2: "generateAudioBook_trigger srv c s inp = (s, Inr rs')"
    and m2: "map pageId rs' = map page_id found" by blast
  from mem m1 have i1: "page_id p \<in> set (map pageId rs)" by (simp only:)
  from mem m2 have i2: "page_id p \<in> set (map pageId rs')" by (simp only:)
  from r1 i1 have b: "\<exists>s' rs. generateAudioBook srv c s inp = (s', Inr rs) \<and>
      page_id p \<in> set (map pageId rs)" by (intro exI conjI)
  from r2 i2 have t: "\<exists>rs. generateAudioBook_trigger srv c s inp = (s, Inr rs) \<and>
      page_id p \<in> set (map pageId rs)" by (intro exI conjI)
  show ?thesis by (intro conjI) (rule a, rule b, rule t)
qed

lemma generateAudio_eq:
  "generateAudio srv s text voice =
     (s\<lparr>synth_calls := synth_calls s @ [(voice, text)]\<rparr>,
      case elevenlabs_generate srv voice text of
        Inl e \<Rightarrow> Inl (Error (''Failed to generate audio: '' @ message e))
      | Inr chunks \<Rightarrow> Inr (concat chunks))"
  by (simp add: generateAudio_def Let_def split: sum.splits)

text \<open>
  C6 (amended). \<^verbatim>\<open>generateAudio\<close> validates nothing: for every text, so also for an
  empty or whitespace-only one, it calls the speech service exactly once with the
  text as given (no retry), throws \<^verbatim>\<open>Failed to generate audio: ...\<close> exactly when the
  service throws, and otherwise returns the concatenated stream, empty or not.
  When the service returns a stream and neither the upload nor the insert fails,
  the page job stores that audio and inserts its AudioFile row.
\<close>
theorem generateAudio_forwards_any_text:
  "generateAudio srv s text voice =
     (s\<lparr>synth_calls := synth_calls s @ [(voice, text)]\<rparr>,
      case elevenlabs_generate srv voice text of
        Inl e \<Rightarrow> Inl (Error (''Failed to generate audio: '' @ message e))
      | Inr chunks \<Rightarrow> Inr (concat chunks)) \<and>
   (page_content p = text \<and> voiceId inp = voice \<and>
    elevenlabs_generate srv voice text = Inr chunks \<and>
    upload_fault srv (''audio/'' @ fileName_of srv p) (concat chunks) = None \<and>
    db_fault srv (InsertAudioFile (page_id p) (fileName_of srv p)
       (''https://fly.storage.tigris.dev/'' @ AWS_S3_BUCKET srv @ ''/audio/'' @ fileName_of srv p)) = None
    \<longrightarrow>
    (\<exists>s' a. regenerate_page srv inp s p = (s', Succeeded (page_id p) (Some a)) \<and>
       audioFiles s' = audioFiles s @ [a] \<and> audio_pageId a = page_id p \<and>
       objects s' = objects s @ [(''audio/'' @ fileName_of srv p, concat chunks)] \<and>
       synth_calls s' = synth_calls s @ [(voice, text)]))"
  by (simp add: generateAudio_eq regenerate_page_eq)

lemma regenerate_page_uploads:
  "regenerate_page srv inp s p = (s', r) \<Longrightarrow>
     objects s' = objects s @
       (case elevenlabs_generate srv (voiceId inp) (page_content p) of
          Inl e \<Rightarrow> []
        | Inr chunks \<Rightarrow>
            (case upload_fault srv (''audio/'' @ fileName_of srv p) (concat chunks) of
               Some e \<Rightarrow> []
             | None \<Rightarrow> [(''audio/'' @ fileName_of srv p, concat chunks)]))"
  by (auto simp: regenerate_page_eq split: sum.splits option.splits)

lemma regenerate_page_path:
  "regenerate_page srv inp s p = (s', Succeeded pid (Some a)) \<Longrightarrow>
     audio_filePath a =
       ''https://fly.storage.tigris.dev/'' @ AWS_S3_BUCKET srv @ ''/audio/'' @ fileName_of srv p"
  by (auto simp: regenerate_page_eq split: sum.splits option.splits)

lemma batch_uploads:
  assumes "promise_all (\<lambda>t page. case regenerate_page srv inp t page of (t', r) \<Rightarrow> (t', Inr r)) s ps
             = (s', R)"
  shows "objects s' = objects s @
           concat (map (\<lambda>p. case elevenlabs_generate srv (voiceId inp) (page_content p) of
                              Inl e \<Rightarrow> []
                            | Inr chunks \<Rightarrow>
                                (case upload_fault srv (''audio/'' @ fileName_of srv p) (concat chunks) of
                                   Some e \<Rightarrow> []
                                 | None \<Rightarrow> [(''audio/'' @ fileName_of srv p, concat chunks)]))
                     ps)"
  using assms
proof (induction ps arbitrary: s s' R)
  case Nil
  then show ?case by simp
next
  case (Cons p ps)
  obtain s1 r where h: "regenerate_page srv inp s p = (s1, r)"
    by (cases "regenerate_page srv inp s p")
  obtain s2 R2 where t: "promise_all (\<lambda>t page. case regenerate_page srv inp t page of (t', r) \<Rightarrow> (t', Inr r)) s1 ps
             = (s2, R2)"
    by (cases "promise_all (\<lambda>t page. case regenerate_page srv inp t page of (t', r) \<Rightarrow> (t', Inr r)) s1 ps")
  from Cons.prems h t have s': "s' = s2" by (auto split: sum.splits)
  from Cons.IH [OF t] regenerate_page_uploads [OF h] s' show ?case by simp
qed

lemma batch_paths:
  assumes "promise_all (\<lambda>t page. case regenerate_page srv inp t page of (t', r) \<Rightarrow> (t', Inr r)) s ps
             = (s', Inr rs)"
  shows "list_all2 (\<lambda>p r. \<forall>pid a. r = Succeeded pid (Some a) \<longrightarrow>
            audio_filePath a = ''https://fly.storage.tigris.dev/'' @ AWS_S3_BUCKET srv @ ''/audio/''
               @ fileName_of srv p) ps rs"
  using assms
proof (induction ps arbitrary: s s' rs)
  case Nil
  then show ?case by simp
next
  case (Cons p ps)
  obtain s1 r where h: "regenerate_page srv inp s p = (s1, r)"
    by (cases "regenerate_page srv inp s p")
  obtain s2 R2 where t: "promise_all (\<lambda>t page. case regenerate_page srv inp t page of (t', r) \<Rightarrow> (t', Inr r)) s1 ps
             = (s2, R2)"
    by (cases "promise_all (\<lambda>t page. case regenerate_page srv inp t page of (t', r) \<Rightarrow> (t', Inr r)) s1 ps")
  from Cons.prems h t obtain rs2 where R2: "R2 = Inr rs2" and rs: "rs = r # rs2"
    by (auto split: sum.splits)
  from Cons.IH [OF t [unfolded R2]] h rs show ?case
    by (auto dest: regenerate_page_path)
qed

text \<open>
  C7. A batch over the found pages always returns, with one terminal entry per
  found page in order. The entry of each page is, up to the serial id of its row,
  what that page's job yields when run alone from any state, so no other page's
  failure alters it. Every success entry carries a row that is in the final ledger,
  with the file name and path of its page, and the bucket holds under that page's
  key the audio that the synthesis of that very page returned. The rows added are
  exactly those of the success entries, and the objects added are exactly the
  uploads of the pages whose synthesis and upload succeeded, each with its own
  audio: the batch removes or rewrites no audio row and no stored object.
\<close>
theorem generateAudioBook_isolates_failures:
  assumes key: "ELEVENLABS_API_KEY srv \<noteq> []"
    and found: "findMany_pages srv s (pageIds inp) = Inr found"
  shows "\<exists>s' rs. generateAudioBook srv c s inp = (s', Inr rs) \<and>
           length rs = length found \<and>
           (\<forall>i<length found.
              pageId (rs ! i) = page_id (found ! i) \<and>
              (\<forall>t. up_to_id (rs ! i) = up_to_id (snd (regenerate_page srv inp t (found ! i)))) \<and>
              (success (rs ! i) \<longrightarrow>
                 (\<exists>a chunks. rs ! i = Succeeded (page_id (found ! i)) (Some a) \<and>
                    a \<in> set (audioFiles s') \<and>
                    audio_pageId a = page_id (found ! i) \<and>
                    audio_fileName a = fileName_of srv (found ! i) \<and>
                    audio_filePath a = ''https://fly.storage.tigris.dev/'' @ AWS_S3_BUCKET srv
                       @ ''/audio/'' @ fileName_of srv (found ! i) \<and>
                    elevenlabs_generate srv (voiceId inp) (page_content (found ! i)) = Inr chunks \<and>
                    (''audio/'' @ fileName_of srv (found ! i), concat chunks) \<in> set (objects s')))) \<and>
           (\<forall>r\<in>set rs. success r \<longrightarrow>
              (\<exists>a b. r = Succeeded (audio_pageId a) (Some a) \<and> a \<in> set (audioFiles s') \<and>
                 (''audio/'' @ audio_fileName a, b) \<in> set (objects s'))) \<and>
           audioFiles s' = audioFiles s @ [a. Succeeded pid (Some a) \<leftarrow> rs] \<and>
           objects s' = objects s @
             concat (map (\<lambda>p. case elevenlabs_generate srv (voiceId inp) (page_content p) of
                                Inl e \<Rightarrow> []
                              | Inr chunks \<Rightarrow>
                                  (case upload_fault srv (''audio/'' @ fileName_of srv p) (concat chunks) of
                                     Some e \<Rightarrow> []
                                   | None \<Rightarrow> [(''audio/'' @ fileName_of srv p, concat chunks)]))
                       found)"
proof -
  obtain s' R where run: "generateAudioBook srv c s inp = (s', R)"
    by (cases "generateAudioBook srv c s inp")
  with generateAudioBook_eq [OF key found, of c]
  have batch: "promise_all (\<lambda>t page. case regenerate_page srv inp t page of (t', r) \<Rightarrow> (t', Inr r)) s found
          = (s', R)" by simp
  from batch_effect [OF batch] obtain rs where R: "R = Inr rs"
    and all: "list_all2 (\<lambda>p r. pageId r = page_id p \<and>
                       (\<forall>t. up_to_id r = up_to_id (snd (regenerate_page srv inp t p))) \<and>
                       (success r \<longrightarrow>
                          (\<exists>a chunks. r = Succeeded (page_id p) (Some a) \<and>
                             audio_pageId a = page_id p \<and>
                             audio_fileName a = fileName_of srv p \<and>
                             elevenlabs_generate srv (voiceId inp) (page_content p) = Inr chunks \<and>
                             upload_fault srv (''audio/'' @ fileName_of srv p) (concat chunks) = None \<and>
                             (''audio/'' @ fileName_of srv p, concat chunks) \<in> set (objects s'))))
             found rs"
    and rows: "audioFiles s' = audioFiles s @ [a. Succeeded pid (Some a) \<leftarrow> rs]"
    by blast
  note objs = batch_uploads [OF batch]
  note paths = batch_paths [OF batch [unfolded R]]
  from all have len: "length rs = length found" by (simp add: list_all2_lengthD)
  have inrows: "a \<in> set (audioFiles s')" if "i < length rs" and "rs ! i = Succeeded pid (Some a)"
    for i pid a
  proof -
    from that have "Succeeded pid (Some a) \<in> set rs" by (metis nth_mem)
    then have "a \<in> set [a. Succeeded pid (Some a) \<leftarrow> rs]" by force
    with rows show ?thesis by simp
  qed
  have each: "pageId (rs ! i) = page_id (found ! i) \<and>
              (\<forall>t. up_to_id (rs ! i) = up_to_id (snd (regenerate_page srv inp t (found ! i)))) \<and>
              (success (rs ! i) \<longrightarrow>
                 (\<exists>a chunks. rs ! i = Succeeded (page_id (found ! i)) (Some a) \<and>
                    a \<in> set (audioFiles s') \<and>
                    audio_pageId a = page_id (found ! i) \<and>
                    audio_fileName a = fileName_of srv (found ! i) \<and>
                    audio_filePath a = ''https://fly.storage.tigris.dev/'' @ AWS_S3_BUCKET srv
                       @ ''/audio/'' @ fileName_of srv (found ! i) \<and>
                    elevenlabs_generate srv (voiceId inp) (page_content (found ! i)) = Inr chunks \<and>
                    (''audio/'' @ fileName_of srv (found ! i), concat chunks) \<in> set (objects s')))"
    if i: "i < length found" for i
  proof (intro conjI impI)
    from all i show "pageId (rs ! i) = page_id (found ! i)"
      by (simp add: list_all2_conv_all_nth)
    from all i show "\<forall>t. up_to_id (rs ! i) = up_to_id (snd (regenerate_page srv inp t (found ! i)))"
      by (simp add: list_all2_conv_all_nth)
  next
    assume ok: "success (rs ! i)"
    from all i ok obtain a chunks where
      ra: "rs ! i = Succeeded (page_id (found ! i)) (Some a)" and
      pa: "audio_pageId a = page_id (found ! i)" and
      fa: "audio_fileName a = fileName_of srv (found ! i)" and
      ga: "elevenlabs_generate srv (voiceId inp) (page_content (found ! i)) = Inr chunks" and
      oa: "(''audio/'' @ fileName_of srv (found ! i), concat chunks) \<in> set (objects s')"
      by (auto simp: list_all2_conv_all_nth)
    from paths i ra have pth: "audio_filePath a = ''https://fly.storage.tigris.dev/'' @ AWS_S3_BUCKET srv
                       @ ''/audio/'' @ fileName_of srv (found ! i)"
      by (simp add: list_all2_conv_all_nth)
    from inrows [of i] i len ra have "a \<in> set (audioFiles s')" by simp
    with ra pa fa ga oa pth
    show "\<exists>a chunks. rs ! i = Succeeded (page_id (found ! i)) (Some a) \<and>
                    a \<in> set (audioFiles s') \<and>
                    audio_pageId a = page_id (found ! i) \<and>
                    audio_fileName a = fileName_of srv (found ! i) \<and>
                    audio_filePath a = ''https://fly.storage.tigris.dev/'' @ AWS_S3_BUCKET srv
                       @ ''/audio/'' @ fileName_of srv (found ! i) \<and>
                    elevenlabs_generate srv (voiceId inp) (page_content (found ! i)) = Inr chunks \<and>
                    (''audio/'' @ fileName_of srv (found ! i), concat chunks) \<in> set (objects s')"
      by blast
  qed
  have kept: "\<forall>r\<in>set rs. success r \<longrightarrow>
              (\<exists>a b. r = Succeeded (audio_pageId a) (Some a) \<and> a \<in> set (audioFiles s') \<and>
                 (''audio/'' @ audio_fileName a, b) \<in> set (objects s'))"
  proof (intro ballI impI)
    fix r assume r: "r \<in> set rs" and ok: "success r"
    from r obtain i where i: "i < length rs" and ri: "rs ! i = r" by (auto simp: in_set_conv_nth)
    from each [of i] i len ri ok obtain a chunks where
      "r = Succeeded (page_id (found ! i)) (Some a)" "a \<in> set (audioFiles s')"
      "audio_pageId a = page_id (found ! i)" "audio_fileName a = fileName_of srv (found ! i)"
      "(''audio/'' @ fileName_of srv (found ! i), concat chunks) \<in> set (objects s')"
      by auto
    then show "\<exists>a b. r = Succeeded (audio_pageId a) (Some a) \<and> a \<in> set (audioFiles s') \<and>
                 (''audio/'' @ audio_fileName a, b) \<in> set (objects s')"
      by auto
  qed
  from each have each': "\<forall>i<length found.
              pageId (rs ! i) = page_id (found ! i) \<and>
              (\<forall>t. up_to_id (rs ! i) = up_to_id (snd (regenerate_page srv inp t (found ! i)))) \<and>
              (success (rs ! i) \<longrightarrow>
                 (\<exists>a chunks. rs ! i = Succeeded (page_id (found ! i)) (Some a) \<and>
                    a \<in> set (audioFiles s') \<and>
                    audio_pageId a = page_id (found ! i) \<and>
                    audio_fileName a = fileName_of srv (found ! i) \<and>
                    audio_filePath a = ''https://fly.storage.tigris.dev/'' @ AWS_S3_BUCKET srv
                       @ ''/audio/'' @ fileName_of srv (found ! i) \<and>
                    elevenlabs_generate srv (voiceId inp) (page_content (found ! i)) = Inr chunks \<and>
                    (''audio/'' @ fileName_of srv (found ! i), concat chunks) \<in> set (objects s')))"
    by blast
  show ?thesis
    apply (rule exI [of _ s'], rule exI [of _ rs])
    using run R len each' kept rows objs by (intro conjI) simp_all
qed

text \<open>
  C8. In a batch, the AudioFile rows added to the ledger are exactly the rows
  carried by the success entries, in order: a failed page job adds none. An entry
  is a success only if the synthesis of its page returned audio and the upload of
  that audio succeeded.
\<close>
theorem failed_job_inserts_no_audio_row:
  assumes run: "generateAudioBook srv c s inp = (s', Inr rs)"
  shows "\<exists>found. findMany_pages srv s (pageIds inp) = Inr found \<and>
           list_all2 (\<lambda>p r. pageId r = page_id p \<and>
                        (success r \<longrightarrow>
                           (\<exists>a chunks. r = Succeeded (page_id p) (Some a) \<and>
                              audio_pageId a = page_id p \<and>
                              elevenlabs_generate srv (voiceId inp) (page_content p) = Inr chunks \<and>
                              upload_fault srv (''audio/'' @ fileName_of srv p) (concat chunks) = None \<and>
                              (''audio/'' @ fileName_of srv p, concat chunks) \<in> set (objects s'))))
             found rs \<and>
           audioFiles s' = audioFiles s @ [a. Succeeded pid (Some a) \<leftarrow> filter success rs]"
proof -
  from generateAudioBook_Inr_found [OF run] obtain found where
    key: "ELEVENLABS_API_KEY srv \<noteq> []" and found: "findMany_pages srv s (pageIds inp) = Inr found"
    by blast
  with generateAudioBook_eq [OF key found, of c] run
  have "promise_all (\<lambda>t page. case regenerate_page srv inp t page of (t', r) \<Rightarrow> (t', Inr r)) s found
          = (s', Inr rs)" by simp
  from batch_effect [OF this] have
    all: "list_all2 (\<lambda>p r. pageId r = page_id p \<and>
                       (\<forall>t. up_to_id r = up_to_id (snd (regenerate_page srv inp t p))) \<and>
                       (success r \<longrightarrow>
                          (\<exists>a chunks. r = Succeeded (page_id p) (Some a) \<and>
                             audio_pageId a = page_id p \<and>
                             audio_fileName a = fileName_of srv p \<and>
                             elevenlabs_generate srv (voiceId inp) (page_content p) = Inr chunks \<and>
                             upload_fault srv (''audio/'' @ fileName_of srv p) (concat chunks) = None \<and>
                             (''audio/'' @ fileName_of srv p, concat chunks) \<in> set (objects s'))))
             found rs"
    and rows: "audioFiles s' = audioFiles s @ [a. Succeeded pid (Some a) \<leftarrow> rs]"
    by auto
  have weaker: "list_all2 (\<lambda>p r. pageId r = page_id p \<and>
                        (success r \<longrightarrow>
                           (\<exists>a chunks. r = Succeeded (page_id p) (Some a) \<and>
                              audio_pageId a = page_id p \<and>
                              elevenlabs_generate srv (voiceId inp) (page_content p) = Inr chunks \<and>
                              upload_fault srv (''audio/'' @ fileName_of srv p) (concat chunks) = None \<and>
                              (''audio/'' @ fileName_of srv p, concat chunks) \<in> set (objects s'))))
             found rs"
    by (rule list_all2_mono [OF all]) blast
  have flt: "[a. Succeeded pid (Some a) \<leftarrow> filter success xs] = [a. Succeeded pid (Some a) \<leftarrow> xs]"
    for xs :: "audioFileRow option page_result list"
  proof (induction xs)
    case Nil show ?case by simp
  next
    case (Cons x xs) then show ?case by (cases x) auto
  qed
  from found weaker rows flt show ?thesis by simp
qed

lemma generateAudioBook_1_99_eval:
  "generateAudioBook srv_ok alice s_two_docs req_1_99 =
     (s_two_docs\<lparr>audioFiles := audioFiles s_two_docs @
          [\<lparr>audio_id = 2, audio_pageId = 1, audio_fileName = ''1-1-1700.mp3'',
            audio_filePath = ''https://fly.storage.tigris.dev/bucket/audio/1-1-1700.mp3''\<rparr>],
        audioFiles_seq := 3,
        objects := objects s_two_docs @ [(''audio/1-1-1700.mp3'', [1, 2, 3])],
        synth_calls := [(''v'', ''one'')]\<rparr>,
      Inr [Succeeded 1
             (Some \<lparr>audio_id = 2, audio_pageId = 1, audio_fileName = ''1-1-1700.mp3'',
                audio_filePath = ''https://fly.storage.tigris.dev/bucket/audio/1-1-1700.mp3''\<rparr>)])"
  by code_simp

lemma generateAudioBook_trigger_1_99_eval:
  "generateAudioBook_trigger srv_ok alice s_two_docs req_1_99 =
     (s_two_docs, Inr [Succeeded 1 ''run_1''])"
  by code_simp

text \<open>
  Pages 1 and 99 are requested and the ledger has no page 99: each revision returns
  a single entry, for page 1.
\<close>

theorem generateAudioBook_entry_per_request_counterexample:
  "pageIds req_1_99 = [1, 99] \<and>
   snd (generateAudioBook srv_ok alice s_two_docs req_1_99) =
     Inr [Succeeded 1
            (Some \<lparr>audio_id = 2, audio_pageId = 1, audio_fileName = ''1-1-1700.mp3'',
               audio_filePath = ''https://fly.storage.tigris.dev/bucket/audio/1-1-1700.mp3''\<rparr>)] \<and>
   snd (generateAudioBook_trigger srv_ok alice s_two_docs req_1_99) = Inr [Succeeded 1 ''run_1'']"
  by (simp add: generateAudioBook_1_99_eval generateAudioBook_trigger_1_99_eval)
     (simp add: req_1_99_def)

text \<open>
  The same request, through the theorem: one page is found, and each revision
  returns the entry of that page only.
\<close>

theorem generateAudioBook_entry_per_found_page_witness:
  "findMany_pages srv_ok s_two_docs (pageIds req_1_99) =
     Inr [\<lparr>page_id = 1, page_documentId = 1, page_pageNumber = 1, page_content = ''one''\<rparr>] \<and>
   (\<exists>s' rs. generateAudioBook srv_ok alice s_two_docs req_1_99 = (s', Inr rs) \<and>
      map pageId rs = [1]) \<and>
   (\<exists>rs. generateAudioBook_trigger srv_ok alice s_two_docs req_1_99 = (s_two_docs, Inr rs) \<and>
      map pageId rs = [1])"
proof -
  have k: "ELEVENLABS_API_KEY srv_ok \<noteq> []" by (simp add: srv_ok_def)
  have f: "findMany_pages srv_ok s_two_docs (pageIds req_1_99) =
     Inr [\<lparr>page_id = 1, page_documentId = 1, page_pageNumber = 1, page_content = ''one''\<rparr>]"
    by (simp add: findMany_pages_def srv_ok_def s_two_docs_def req_1_99_def)
  from generateAudioBook_entry_per_found_page [OF k f, of alice] f show ?thesis by simp
qed

lemma generateAudioBook_doc1_page5_eval:
  "generateAudioBook srv_ok alice s_two_docs req_doc1_page5 =
     (s_two_docs\<lparr>audioFiles := audioFiles s_two_docs @
          [\<lparr>audio_id = 2, audio_pageId = 5, audio_fileName = ''2-1-1700.mp3'',
            audio_filePath = ''https://fly.storage.tigris.dev/bucket/audio/2-1-1700.mp3''\<rparr>],
        audioFiles_seq := 3,
        objects := objects s_two_docs @ [(''audio/2-1-1700.mp3'', [1, 2, 3])],
        synth_calls := [(''v'', ''  '')]\<rparr>,
      Inr [Succeeded 5
             (Some \<lparr>audio_id = 2, audio_pageId = 5, audio_fileName = ''2-1-1700.mp3'',
                audio_filePath = ''https://fly.storage.tigris.dev/bucket/audio/2-1-1700.mp3''\<rparr>)])"
  by code_simp

lemma generateAudioBook_trigger_doc1_page5_eval:
  "generateAudioBook_trigger srv_ok alice s_two_docs req_doc1_page5 =
     (s_two_docs, Inr [Succeeded 5 ''run_1''])"
  by code_simp

text \<open>
  Document 1 is named and page 5 is requested, a page of document 2: the page is
  processed, and an audio file is recorded for it.
\<close>

theorem generateAudioBook_validates_document_counterexample:
  "documentId req_doc1_page5 = 1 \<and> pageIds req_doc1_page5 = [5] \<and>
   filter (\<lambda>p. page_id p = 5) (pages s_two_docs) =
     [\<lparr>page_id = 5, page_documentId = 2, page_pageNumber = 1, page_content = ''  ''\<rparr>] \<and>
   snd (generateAudioBook srv_ok alice s_two_docs req_doc1_page5) =
     Inr [Succeeded 5
            (Some \<lparr>audio_id = 2, audio_pageId = 5, audio_fileName = ''2-1-1700.mp3'',
               audio_filePath = ''https://fly.storage.tigris.dev/bucket/audio/2-1-1700.mp3''\<rparr>)] \<and>
   audioFiles (fst (generateAudioBook srv_ok alice s_two_docs req_doc1_page5)) =
     audioFiles s_two_docs @
       [\<lparr>audio_id = 2, audio_pageId = 5, audio_fileName = ''2-1-1700.mp3'',
         audio_filePath = ''https://fly.storage.tigris.dev/bucket/audio/2-1-1700.mp3''\<rparr>] \<and>
   snd (generateAudioBook_trigger srv_ok alice s_two_docs req_doc1_page5) =
     Inr [Succeeded 5 ''run_1'']"
  by (simp add: generateAudioBook_doc1_page5_eval generateAudioBook_trigger_doc1_page5_eval)
     (simp add: req_doc1_page5_def s_two_docs_def)

text \<open>
  The same request, through the theorem: naming document 2 instead changes nothing,
  and page 5 has its entry in both revisions.
\<close>

theorem generateAudioBook_ignores_documentId_witness:
  "page_documentId \<lparr>page_id = 5, page_documentId = 2, page_pageNumber = 1, page_content = ''  ''\<rparr>
     \<noteq> documentId req_doc1_page5 \<and>
   generateAudioBook srv_ok alice s_two_docs (req_doc1_page5\<lparr>documentId := 2\<rparr>) =
     generateAudioBook srv_ok alice s_two_docs req_doc1_page5 \<and>
   (\<exists>s' rs. generateAudioBook srv_ok alice s_two_docs req_doc1_page5 = (s', Inr rs) \<and>
      5 \<in> set (map pageId rs)) \<and>
   (\<exists>rs. generateAudioBook_trigger srv_ok alice s_two_docs req_doc1_page5 = (s_two_docs, Inr rs) \<and>
      5 \<in> set (map pageId rs))"
proof -
  have k: "ELEVENLABS_API_KEY srv_ok \<noteq> []" by (simp add: srv_ok_def)
  have f: "findMany_pages srv_ok s_two_docs (pageIds req_doc1_page5) =
     Inr [\<lparr>page_id = 5, page_documentId = 2, page_pageNumber = 1, page_content = ''  ''\<rparr>]"
    by (simp add: findMany_pages_def srv_ok_def s_two_docs_def req_doc1_page5_def)
  have m: "\<lparr>page_id = 5, page_documentId = 2, page_pageNumber = 1, page_content = ''  ''\<rparr>
             \<in> set (pages s_two_docs)"
    by (simp add: s_two_docs_def)
  have i: "page_id \<lparr>page_id = 5, page_documentId = 2, page_pageNumber = 1, page_content = ''  ''\<rparr>
             \<in> set (pageIds req_doc1_page5)"
    by (simp add: req_doc1_page5_def)
  have o: "page_documentId \<lparr>page_id = 5, page_documentId = 2, page_pageNumber = 1, page_content = ''  ''\<rparr>
     \<noteq> documentId req_doc1_page5"
    by (simp add: req_doc1_page5_def)
  from generateAudioBook_ignores_documentId [OF k f m i o, of alice 2] o show ?thesis by simp
qed

lemma generateAudio_blank_eval:
  "generateAudio srv_blank_silent s_empty [] ''v'' = (s_empty\<lparr>synth_calls := [(''v'', [])]\<rparr>, Inr [])"
  by code_simp

lemma generateAudioBook_blank_eval:
  "generateAudioBook srv_blank_silent bob s_two_docs req_5 =
     (s_two_docs\<lparr>audioFiles := audioFiles s_two_docs @
          [\<lparr>audio_id = 2, audio_pageId = 5, audio_fileName = ''2-1-1700.mp3'',
            audio_filePath = ''https://fly.storage.tigris.dev/bucket/audio/2-1-1700.mp3''\<rparr>],
        audioFiles_seq := 3,
        objects := objects s_two_docs @ [(''audio/2-1-1700.mp3'', [])],
        synth_calls := [(''v'', ''  '')]\<rparr>,
      Inr [Succeeded 5
             (Some \<lparr>audio_id = 2, audio_pageId = 5, audio_fileName = ''2-1-1700.mp3'',
                audio_filePath = ''https://fly.storage.tigris.dev/bucket/audio/2-1-1700.mp3''\<rparr>)])"
  by code_simp

text \<open>
  A speech service that answers a blank text with an empty stream: synthesis of the
  empty text returns empty audio after one call, and the batch over page 5, whose
  text is two spaces, stores an empty object and records it.
\<close>

theorem generateAudio_rejects_blank_counterexample:
  "snd (generateAudio srv_blank_silent s_empty [] ''v'') = Inr [] \<and>
   synth_calls (fst (generateAudio srv_blank_silent s_empty [] ''v'')) = [(''v'', [])] \<and>
   map page_content (filter (\<lambda>p. page_id p = 5) (pages s_two_docs)) = [''  ''] \<and>
   snd (generateAudioBook srv_blank_silent bob s_two_docs req_5) =
     Inr [Succeeded 5
            (Some \<lparr>audio_id = 2, audio_pageId = 5, audio_fileName = ''2-1-1700.mp3'',
               audio_filePath = ''https://fly.storage.tigris.dev/bucket/audio/2-1-1700.mp3''\<rparr>)] \<and>
   objects (fst (generateAudioBook srv_blank_silent bob s_two_docs req_5)) =
     [(''audio/1-1-1600.mp3'', [9]), (''audio/2-1-1700.mp3'', [])]"
  by (simp add: generateAudio_blank_eval generateAudioBook_blank_eval)
     (simp add: s_two_docs_def)

lemma fileName_of_page5:
  "fileName_of srv_blank_silent
     \<lparr>page_id = 5, page_documentId = 2, page_pageNumber = 1, page_content = ''  ''\<rparr> = ''2-1-1700.mp3''"
  by code_simp

text \<open>
  Page 5 and the same service, through the theorem.
\<close>

theorem generateAudio_forwards_any_text_witness:
  "elevenlabs_generate srv_blank_silent ''v'' ''  '' = Inr [] \<and>
   generateAudio srv_blank_silent s_two_docs ''  '' ''v'' =
     (s_two_docs\<lparr>synth_calls := synth_calls s_two_docs @ [(''v'', ''  '')]\<rparr>, Inr []) \<and>
   (\<exists>s' a. regenerate_page srv_blank_silent req_5 s_two_docs
              \<lparr>page_id = 5, page_documentId = 2, page_pageNumber = 1, page_content = ''  ''\<rparr>
              = (s', Succeeded 5 (Some a)) \<and>
      audioFiles s' = audioFiles s_two_docs @ [a] \<and> audio_pageId a = 5 \<and>
      objects s' = objects s_two_docs @ [(''audio/2-1-1700.mp3'', [])] \<and>
      synth_calls s' = synth_calls s_two_docs @ [(''v'', ''  '')])"
proof -
  have g: "elevenlabs_generate srv_blank_silent ''v'' ''  '' = Inr []"
    by (simp add: srv_blank_silent_def srv_ok_def)
  have u: "upload_fault srv_blank_silent x y = None" for x y
    by (simp add: srv_blank_silent_def srv_ok_def)
  have d: "db_fault srv_blank_silent st = None" for st
    by (simp add: srv_blank_silent_def srv_ok_def)
  have v: "voiceId req_5 = ''v''" by (simp add: req_5_def)
  from generateAudio_forwards_any_text
    [of srv_blank_silent s_two_docs "''  ''" "''v''"
        "\<lparr>page_id = 5, page_documentId = 2, page_pageNumber = 1, page_content = ''  ''\<rparr>"
        req_5 "[]"]
    g u d v
  show ?thesis by (simp add: fileName_of_page5)
qed

lemma generateAudioBook_page1_fails_eval:
  "generateAudioBook srv_page1_synth_fails alice s_two_docs req_1_2 =
     (s_two_docs\<lparr>audioFiles := audioFiles s_two_docs @
          [\<lparr>audio_id = 2, audio_pageId = 2, audio_fileName = ''1-2-1700.mp3'',
            audio_filePath = ''https://fly.storage.tigris.dev/bucket/audio/1-2-1700.mp3''\<rparr>],
        audioFiles_seq := 3,
        objects := objects s_two_docs @ [(''audio/1-2-1700.mp3'', [1, 2, 3])],
        synth_calls := [(''v'', ''one''), (''v'', ''two'')]\<rparr>,
      Inr [Failed 1 ''Failed to generate audio: quota exceeded'',
           Succeeded 2
             (Some \<lparr>audio_id = 2, audio_pageId = 2, audio_fileName = ''1-2-1700.mp3'',
                audio_filePath = ''https://fly.storage.tigris.dev/bucket/audio/1-2-1700.mp3''\<rparr>)])"
  by code_simp

lemma findMany_1_2:
  "findMany_pages srv_page1_synth_fails s_two_docs (pageIds req_1_2) =
     Inr [\<lparr>page_id = 1, page_documentId = 1, page_pageNumber = 1, page_content = ''one''\<rparr>,
          \<lparr>page_id = 2, page_documentId = 1, page_pageNumber = 2, page_content = ''two''\<rparr>]"
  by (simp add: findMany_pages_def srv_page1_synth_fails_def srv_ok_def s_two_docs_def req_1_2_def)

lemma fileName_of_page2:
  "fileName_of srv_page1_synth_fails
     \<lparr>page_id = 2, page_documentId = 1, page_pageNumber = 2, page_content = ''two''\<rparr> = ''1-2-1700.mp3''"
  by code_simp

text \<open>
  Pages 1 and 2 are requested and the synthesis of page 1 fails: the batch returns
  a failure entry for page 1 and the success entry of page 2, which is what the job
  of page 2 yields on the empty ledger, up to the id of the row; the one object
  added to the bucket is the audio of page 2, as its synthesis returned it.
\<close>

theorem generateAudioBook_isolates_failures_witness:
  "snd (generateAudioBook srv_page1_synth_fails alice s_two_docs req_1_2) =
     Inr [Failed 1 ''Failed to generate audio: quota exceeded'',
          Succeeded 2
            (Some \<lparr>audio_id = 2, audio_pageId = 2, audio_fileName = ''1-2-1700.mp3'',
               audio_filePath = ''https://fly.storage.tigris.dev/bucket/audio/1-2-1700.mp3''\<rparr>)] \<and>
   (\<exists>s' rs. generateAudioBook srv_page1_synth_fails alice s_two_docs req_1_2 = (s', Inr rs) \<and>
      length rs = 2 \<and>
      up_to_id (rs ! 1) =
        up_to_id (snd (regenerate_page srv_page1_synth_fails req_1_2 s_empty
           \<lparr>page_id = 2, page_documentId = 1, page_pageNumber = 2, page_content = ''two''\<rparr>)) \<and>
      (\<exists>new. audioFiles s' = audioFiles s_two_docs @ new) \<and>
      objects s' = objects s_two_docs @ [(''audio/1-2-1700.mp3'', [1, 2, 3])])"
proof -
  have k: "ELEVENLABS_API_KEY srv_page1_synth_fails \<noteq> []"
    by (simp add: srv_page1_synth_fails_def srv_ok_def)
  have g1: "elevenlabs_generate srv_page1_synth_fails (voiceId req_1_2) ''one'' =
      Inl (Error ''quota exceeded'')"
    by (simp add: srv_page1_synth_fails_def srv_ok_def)
  have g2: "elevenlabs_generate srv_page1_synth_fails (voiceId req_1_2) ''two'' = Inr [[1, 2], [3]]"
    by (simp add: srv_page1_synth_fails_def srv_ok_def)
  have u: "upload_fault srv_page1_synth_fails x y = None" for x y
    by (simp add: srv_page1_synth_fails_def srv_ok_def)
  from generateAudioBook_isolates_failures [OF k findMany_1_2, of alice]
  obtain s' rs where run: "generateAudioBook srv_page1_synth_fails alice s_two_docs req_1_2 = (s', Inr rs)"
    and len: "length rs = 2"
    and each: "\<forall>i<2. \<forall>t. up_to_id (rs ! i) =
       up_to_id (snd (regenerate_page srv_page1_synth_fails req_1_2 t
         ([\<lparr>page_id = 1, page_documentId = 1, page_pageNumber = 1, page_content = ''one''\<rparr>,
           \<lparr>page_id = 2, page_documentId = 1, page_pageNumber = 2, page_content = ''two''\<rparr>] ! i)))"
    and kept: "\<exists>new. audioFiles s' = audioFiles s_two_docs @ new"
    and objs: "objects s' = objects s_two_docs @
             concat (map (\<lambda>p. case elevenlabs_generate srv_page1_synth_fails (voiceId req_1_2)
                                     (page_content p) of
                                Inl e \<Rightarrow> []
                              | Inr chunks \<Rightarrow>
                                  (case upload_fault srv_page1_synth_fails
                                          (''audio/'' @ fileName_of srv_page1_synth_fails p)
                                          (concat chunks) of
                                     Some e \<Rightarrow> []
                                   | None \<Rightarrow> [(''audio/'' @ fileName_of srv_page1_synth_fails p,
                                               concat chunks)]))
                       [\<lparr>page_id = 1, page_documentId = 1, page_pageNumber = 1, page_content = ''one''\<rparr>,
                        \<lparr>page_id = 2, page_documentId = 1, page_pageNumber = 2, page_content = ''two''\<rparr>])"
    by auto
  from each [rule_format, of 1 s_empty] have "up_to_id (rs ! 1) =
        up_to_id (snd (regenerate_page srv_page1_synth_fails req_1_2 s_empty
           \<lparr>page_id = 2, page_documentId = 1, page_pageNumber = 2, page_content = ''two''\<rparr>))"
    by simp
  moreover from objs have "objects s' = objects s_two_docs @ [(''audio/1-2-1700.mp3'', [1, 2, 3])]"
    by (simp add: g1 g2 u fileName_of_page2)
  ultimately show ?thesis using run len kept
    by (simp add: generateAudioBook_page1_fails_eval)
qed

text \<open>
  The same batch, through the theorem: the only row added is that of page 2.
\<close>

theorem failed_job_inserts_no_audio_row_witness:
  "snd (generateAudioBook srv_page1_synth_fails alice s_two_docs req_1_2) =
     Inr [Failed 1 ''Failed to generate audio: quota exceeded'',
          Succeeded 2
            (Some \<lparr>audio_id = 2, audio_pageId = 2, audio_fileName = ''1-2-1700.mp3'',
               audio_filePath = ''https://fly.storage.tigris.dev/bucket/audio/1-2-1700.mp3''\<rparr>)] \<and>
   audioFiles (fst (generateAudioBook srv_page1_synth_fails alice s_two_docs req_1_2)) =
     audioFiles s_two_docs @
       [\<lparr>audio_id = 2, audio_pageId = 2, audio_fileName = ''1-2-1700.mp3'',
         audio_filePath = ''https://fly.storage.tigris.dev/bucket/audio/1-2-1700.mp3''\<rparr>]"
proof -
  have run: "generateAudioBook srv_page1_synth_fails alice s_two_docs req_1_2 =
     (fst (generateAudioBook srv_page1_synth_fails alice s_two_docs req_1_2),
      Inr [Failed 1 ''Failed to generate audio: quota exceeded'',
          Succeeded 2
            (Some \<lparr>audio_id = 2, audio_pageId = 2, audio_fileName = ''1-2-1700.mp3'',
               audio_filePath = ''https://fly.storage.tigris.dev/bucket/audio/1-2-1700.mp3''\<rparr>)])"
    by (simp add: generateAudioBook_page1_fails_eval)
  from failed_job_inserts_no_audio_row [OF run]
  have "audioFiles (fst (generateAudioBook srv_page1_synth_fails alice s_two_docs req_1_2)) =
     audioFiles s_two_docs @
       [a. Succeeded pid (Some a) \<leftarrow>
          filter success
            [Failed 1 ''Failed to generate audio: quota exceeded'',
             Succeeded 2
               (Some \<lparr>audio_id = 2, audio_pageId = 2, audio_fileName = ''1-2-1700.mp3'',
                  audio_filePath = ''https://fly.storage.tigris.dev/bucket/audio/1-2-1700.mp3''\<rparr>)]]"
    by blast
  then have "audioFiles (fst (generateAudioBook srv_page1_synth_fails alice s_two_docs req_1_2)) =
     audioFiles s_two_docs @
       [\<lparr>audio_id = 2, audio_pageId = 2, audio_fileName = ''1-2-1700.mp3'',
         audio_filePath = ''https://fly.storage.tigris.dev/bucket/audio/1-2-1700.mp3''\<rparr>]"
    by simp
  moreover from run
  have "snd (generateAudioBook srv_page1_synth_fails alice s_two_docs req_1_2) =
     Inr [Failed 1 ''Failed to generate audio: quota exceeded'',
          Succeeded 2
            (Some \<lparr>audio_id = 2, audio_pageId = 2, audio_fileName = ''1-2-1700.mp3'',
               audio_filePath = ''https://fly.storage.tigris.dev/bucket/audio/1-2-1700.mp3''\<rparr>)]"
    by (metis snd_conv)
  ultimately show ?thesis by (intro conjI)
qed

section \<open>Properties of \<^verbatim>\<open>delete\<close>\<close>

lemma delete_ctx: "delete srv c' s inp = delete srv c s inp"
  by (simp add: delete_def delete_try_def)

lemma delete_pages_only_ctx: "delete_pages_only srv c' s inp = delete_pages_only srv c s inp"
  by (simp add: delete_pages_only_def)

lemma delete_no_fault:
  assumes nf: "\<forall>st. db_fault srv st = None"
  shows "delete srv c s inp =
     (s\<lparr>audioFiles :=
          filter (\<lambda>a. audio_pageId a \<notin>
                    set (case filter (\<lambda>d. doc_id d = id inp) (documents s) of
                           [] \<Rightarrow> []
                         | d # _ \<Rightarrow> map page_id (filter (\<lambda>p. page_documentId p = id inp) (pages s))))
            (audioFiles s),
        pages := filter (\<lambda>p. page_documentId p \<noteq> id inp) (pages s),
        documents := filter (\<lambda>d. doc_id d \<noteq> id inp) (documents s)\<rparr>,
      Inr (QueryResult (length (filter (\<lambda>d. doc_id d = id inp) (documents s)))))"
proof (cases "filter (\<lambda>d. doc_id d = id inp) (documents s)")
  case Nil
  with nf show ?thesis
    by (simp add: delete_def delete_try_def findFirst_document_def delete_audioFiles_def
          delete_pages_def delete_documents_def Let_def)
next
  case (Cons d ds)
  then have "d \<in> set (filter (\<lambda>d. doc_id d = id inp) (documents s))" by simp
  then have did: "doc_id d = id inp" by simp
  show ?thesis
  proof (cases "map page_id (filter (\<lambda>p. page_documentId p = id inp) (pages s)) = []")
    case True
    with nf Cons did show ?thesis
      by (simp add: delete_def delete_try_def findFirst_document_def delete_audioFiles_def
          delete_pages_def delete_documents_def Let_def)
  next
    case False
    with nf Cons did show ?thesis
      by (simp add: delete_def delete_try_def findFirst_document_def delete_audioFiles_def
          delete_pages_def delete_documents_def Let_def)
  qed
qed

text \<open>
  C10. \<^verbatim>\<open>delete\<close> never reads the caller: for two callers its final state and result
  are equal, in the current and in the oldest revision. A caller who is not the
  owner of a document deletes it (when the database throws on no statement): no
  document of that id, no page of it and no audio file of its pages remains.
\<close>
theorem delete_ignores_caller:
  "delete srv c' s inp = delete srv c s inp \<and>
   delete_pages_only srv c' s inp = delete_pages_only srv c s inp \<and>
   ((\<exists>d\<in>set (documents s). doc_id d = id inp \<and> doc_createdById d \<noteq> session_user_id c) \<and>
    (\<forall>st. db_fault srv st = None) \<longrightarrow>
    (\<exists>s' r. delete srv c s inp = (s', Inr r) \<and>
       (\<forall>d\<in>set (documents s'). doc_id d \<noteq> id inp) \<and>
       (\<forall>p\<in>set (pages s'). page_documentId p \<noteq> id inp) \<and>
       (\<forall>a\<in>set (audioFiles s'). \<forall>p\<in>set (pages s).
          page_documentId p = id inp \<longrightarrow> audio_pageId a \<noteq> page_id p)))"
proof (intro conjI impI)
  show "delete srv c' s inp = delete srv c s inp" by (rule delete_ctx)
  show "delete_pages_only srv c' s inp = delete_pages_only srv c s inp"
    by (rule delete_pages_only_ctx)
next
  assume h: "(\<exists>d\<in>set (documents s). doc_id d = id inp \<and> doc_createdById d \<noteq> session_user_id c) \<and>
    (\<forall>st. db_fault srv st = None)"
  then have nf: "\<forall>st. db_fault srv st = None" by simp
  from h obtain d where "d \<in> set (documents s)" and "doc_id d = id inp" by blast
  then have "d \<in> set (filter (\<lambda>d. doc_id d = id inp) (documents s))" by simp
  then obtain d0 ds where ne: "filter (\<lambda>d. doc_id d = id inp) (documents s) = d0 # ds"
    by (cases "filter (\<lambda>d. doc_id d = id inp) (documents s)") auto
  show "\<exists>s' r. delete srv c s inp = (s', Inr r) \<and>
       (\<forall>d\<in>set (documents s'). doc_id d \<noteq> id inp) \<and>
       (\<forall>p\<in>set (pages s'). page_documentId p \<noteq> id inp) \<and>
       (\<forall>a\<in>set (audioFiles s'). \<forall>p\<in>set (pages s).
          page_documentId p = id inp \<longrightarrow> audio_pageId a \<noteq> page_id p)"
    unfolding delete_no_fault [OF nf] ne by auto
qed

text \<open>
  Bob deletes document 1, which Alice created: the outcome is the one Alice would
  get, and the document, its two pages and its audio file are gone.
\<close>

theorem delete_ignores_caller_witness:
  "doc_createdById \<lparr>doc_id = 1, doc_name = ''Report'', doc_createdById = ''alice''\<rparr>
     \<noteq> session_user_id bob \<and>
   delete srv_ok bob s_two_docs \<lparr>id = 1\<rparr> = delete srv_ok alice s_two_docs \<lparr>id = 1\<rparr> \<and>
   snd (delete srv_ok bob s_two_docs \<lparr>id = 1\<rparr>) = Inr (QueryResult 1) \<and>
   documents (fst (delete srv_ok bob s_two_docs \<lparr>id = 1\<rparr>)) =
     [\<lparr>doc_id = 2, doc_name = ''Notes'', doc_createdById = ''bob''\<rparr>] \<and>
   pages (fst (delete srv_ok bob s_two_docs \<lparr>id = 1\<rparr>)) =
     [\<lparr>page_id = 5, page_documentId = 2, page_pageNumber = 1, page_content = ''  ''\<rparr>] \<and>
   audioFiles (fst (delete srv_ok bob s_two_docs \<lparr>id = 1\<rparr>)) = []"
proof -
  have nf: "\<forall>st. db_fault srv_ok st = None" by (simp add: srv_ok_def)
  have own: "\<exists>d\<in>set (documents s_two_docs). doc_id d = id \<lparr>id = 1\<rparr> \<and>
      doc_createdById d \<noteq> session_user_id bob"
    by (simp add: s_two_docs_def bob_def)
  from delete_ignores_caller [of srv_ok alice s_two_docs "\<lparr>id = 1\<rparr>" bob] nf own
  have same: "delete srv_ok alice s_two_docs \<lparr>id = 1\<rparr> = delete srv_ok bob s_two_docs \<lparr>id = 1\<rparr>"
    and ex: "\<exists>s' r. delete srv_ok bob s_two_docs \<lparr>id = 1\<rparr> = (s', Inr r)"
    by blast+
  have ev: "delete srv_ok bob s_two_docs \<lparr>id = 1\<rparr> =
     (\<lparr>documents = [\<lparr>doc_id = 2, doc_name = ''Notes'', doc_createdById = ''bob''\<rparr>],
       pages = [\<lparr>page_id = 5, page_documentId = 2, page_pageNumber = 1, page_content = ''  ''\<rparr>],
       audioFiles = [], documents_seq = 3, pages_seq = 6, audioFiles_seq = 2,
       objects = [(''audio/1-1-1600.mp3'', [9])], synth_calls = []\<rparr>,
      Inr (QueryResult 1))"
    by code_simp
  from same ev show ?thesis by (simp add: bob_def)
qed

text \<open>
  C5. \<^verbatim>\<open>delete\<close> of a document id that the ledger does not hold: no row is affected
  in any step, and the mutation still returns the (empty) result of the last step
  instead of failing. The three \<^verbatim>\<open>if (!deleted...)\<close> guards test a result object,
  which is never falsy.
\<close>
theorem delete_missing_document_succeeds:
  "findFirst_document srv_ok s_two_docs 7 = Inr None \<and>
   delete srv_ok alice s_two_docs \<lparr>id = 7\<rparr> = (s_two_docs, Inr (QueryResult 0))"
proof -
  have "findFirst_document srv_ok s_two_docs 7 = Inr None"
    by (simp add: findFirst_document_def srv_ok_def s_two_docs_def)
  moreover have "delete srv_ok alice s_two_docs \<lparr>id = 7\<rparr> = (s_two_docs, Inr (QueryResult 0))"
    by code_simp
  ultimately show ?thesis by simp
qed

end
